theory Spec2Isabelle
  imports Complex_Main
begin

section \<open>JavaScript values used by the order flow\<close>

text \<open>
  Numbers are modelled exactly: a JavaScript number is \<open>NaN\<close>, one of the two
  infinities, or a real number. Rounding of IEEE doubles and overflow to \<open>Infinity\<close> are
  not modelled. Strings are lists of 8-bit characters.
\<close>

datatype jsnum = NaN | PosInf | NegInf | Num real

datatype jsval =
    JUndefined
  | JNull
  | JBool bool
  | JNum jsnum
  | JStr string
  | JArr "jsval list"

text \<open>\<open>isNaN(x)\<close> on a number.\<close>

fun isNaN :: "jsnum \<Rightarrow> bool" where
  "isNaN NaN = True"
| "isNaN PosInf = False"
| "isNaN NegInf = False"
| "isNaN (Num r) = False"

text \<open>\<open>x > c\<close> for a number \<open>x\<close> and a finite constant \<open>c\<close>: false on \<open>NaN\<close>.\<close>

fun js_gt :: "jsnum \<Rightarrow> real \<Rightarrow> bool" where
  "js_gt NaN c = False"
| "js_gt PosInf c = True"
| "js_gt NegInf c = False"
| "js_gt (Num r) c = (c < r)"

text \<open>
  \<open>v > c\<close> where \<open>v\<close> is a property that may be absent: \<open>undefined > c\<close> is false,
  since \<open>undefined\<close> converts to \<open>NaN\<close>.
\<close>

fun js_gt_opt :: "jsnum option \<Rightarrow> real \<Rightarrow> bool" where
  "js_gt_opt None c = False"
| "js_gt_opt (Some x) c = js_gt x c"

subsection \<open>Decimal digits\<close>

definition digit_char :: "nat \<Rightarrow> char" where
  "digit_char d = ''0123456789'' ! d"

fun show_nat :: "nat \<Rightarrow> string" where
  "show_nat n = (if n < 10 then [digit_char n] else show_nat (n div 10) @ [digit_char (n mod 10)])"

declare show_nat.simps [simp del]

subsection \<open>\<open>Number.prototype.toFixed(2)\<close>\<close>

text \<open>
  For a finite \<open>x\<close>, \<open>toFixed(2)\<close> picks the integer \<open>n\<close> with \<open>n / 100\<close> closest to
  \<open>x\<close> (the larger one on a tie), writes its digits, pads them with zeros to three
  digits and puts the point before the last two. A negative \<open>x\<close> is written as \<open>-\<close>
  followed by the text of \<open>-x\<close>. JavaScript switches to exponent notation from
  \<open>10^21\<close> on; the model keeps the positional digits there.
\<close>

definition toFixed2_nonneg :: "real \<Rightarrow> string" where
  "toFixed2_nonneg x =
     (let n = nat \<lfloor>x * 100 + 1 / 2\<rfloor>;
          m = show_nat n;
          m' = replicate (3 - length m) CHR ''0'' @ m
      in take (length m' - 2) m' @ ''.'' @ drop (length m' - 2) m')"

fun toFixed2 :: "jsnum \<Rightarrow> string" where
  "toFixed2 NaN = ''NaN''"
| "toFixed2 PosInf = ''Infinity''"
| "toFixed2 NegInf = ''-Infinity''"
| "toFixed2 (Num x) = (if x < 0 then ''-'' @ toFixed2_nonneg (- x) else toFixed2_nonneg x)"

subsection \<open>\<open>parseFloat\<close>\<close>

text \<open>
  \<open>parseFloat\<close> converts its argument to a string, drops leading white space and
  reads the longest prefix that is a decimal literal: an optional sign, then
  \<open>Infinity\<close> or digits with an optional fraction and an optional exponent. With no
  such prefix the result is \<open>NaN\<close>.
\<close>

definition is_digit :: "char \<Rightarrow> bool" where
  "is_digit c = (48 \<le> (of_char c :: nat) \<and> (of_char c :: nat) \<le> 57)"

definition is_ws :: "char \<Rightarrow> bool" where
  "is_ws c = ((of_char c :: nat) \<in> {9, 10, 11, 12, 13, 32, 160})"

definition digits_val :: "string \<Rightarrow> nat" where
  "digits_val ds = foldl (\<lambda>a c. 10 * a + ((of_char c :: nat) - 48)) 0 ds"

definition pow10 :: "int \<Rightarrow> real" where
  "pow10 e = (if 0 \<le> e then 10 ^ nat e else 1 / 10 ^ nat (- e))"

definition parse_exponent :: "string \<Rightarrow> int" where
  "parse_exponent s =
     (case s of
        [] \<Rightarrow> 0
      | c # t \<Rightarrow>
          if c = CHR ''e'' \<or> c = CHR ''E'' then
            (case t of
               [] \<Rightarrow> 0
             | d # u \<Rightarrow>
                 if d = CHR ''-'' then - int (digits_val (takeWhile is_digit u))
                 else if d = CHR ''+'' then int (digits_val (takeWhile is_digit u))
                 else int (digits_val (takeWhile is_digit t)))
          else 0)"

definition parse_unsigned :: "string \<Rightarrow> jsnum" where
  "parse_unsigned s =
     (if take 8 s = ''Infinity'' then PosInf
      else
        let ip = takeWhile is_digit s;
            r1 = dropWhile is_digit s;
            fp = (case r1 of [] \<Rightarrow> [] | c # t \<Rightarrow> if c = CHR ''.'' then takeWhile is_digit t else []);
            r2 = (case r1 of [] \<Rightarrow> [] | c # t \<Rightarrow> if c = CHR ''.'' then dropWhile is_digit t else r1)
        in if ip = [] \<and> fp = [] then NaN
           else Num (of_nat (digits_val (ip @ fp)) / 10 ^ length fp * pow10 (parse_exponent r2)))"

fun negate :: "jsnum \<Rightarrow> jsnum" where
  "negate NaN = NaN"
| "negate PosInf = NegInf"
| "negate NegInf = PosInf"
| "negate (Num r) = Num (- r)"

definition parseFloat_str :: "string \<Rightarrow> jsnum" where
  "parseFloat_str s =
     (case dropWhile is_ws s of
        [] \<Rightarrow> NaN
      | c # t \<Rightarrow>
          if c = CHR ''-'' then negate (parse_unsigned t)
          else if c = CHR ''+'' then parse_unsigned t
          else parse_unsigned (c # t))"

text \<open>
  On a number \<open>parseFloat\<close> gives the number back (its text reads back to itself). An
  array converts to the texts of its elements joined by commas, and a comma ends every
  literal, so only the first element counts. \<open>undefined\<close>, \<open>null\<close> and the booleans
  convert to texts that start no literal.
\<close>

fun parseFloat :: "jsval \<Rightarrow> jsnum" where
  "parseFloat (JNum n) = n"
| "parseFloat (JStr s) = parseFloat_str s"
| "parseFloat JUndefined = NaN"
| "parseFloat JNull = NaN"
| "parseFloat (JBool b) = NaN"
| "parseFloat (JArr []) = NaN"
| "parseFloat (JArr (x # xs)) = parseFloat x"

subsection \<open>\<open>JSON.stringify\<close> on strings and on arrays of strings\<close>

definition hex_char :: "nat \<Rightarrow> char" where
  "hex_char d = ''0123456789abcdef'' ! d"

definition json_escape :: "char \<Rightarrow> string" where
  "json_escape c =
     (if c = CHR 0x22 then [CHR 0x5C, CHR 0x22]
      else if c = CHR 0x5C then [CHR 0x5C, CHR 0x5C]
      else if c = CHR 0x08 then [CHR 0x5C, CHR ''b'']
      else if c = CHR 0x0C then [CHR 0x5C, CHR ''f'']
      else if c = CHR 0x0A then [CHR 0x5C, CHR ''n'']
      else if c = CHR 0x0D then [CHR 0x5C, CHR ''r'']
      else if c = CHR 0x09 then [CHR 0x5C, CHR ''t'']
      else if (of_char c :: nat) < 32 then
        [CHR 0x5C, CHR ''u'', CHR ''0'', CHR ''0'',
         hex_char ((of_char c :: nat) div 16), hex_char ((of_char c :: nat) mod 16)]
      else [c])"

definition json_quote :: "string \<Rightarrow> string" where
  "json_quote s = [CHR 0x22] @ concat (map json_escape s) @ [CHR 0x22]"

fun join_comma :: "string list \<Rightarrow> string" where
  "join_comma [] = []"
| "join_comma [x] = x"
| "join_comma (x # y # ys) = x @ '','' @ join_comma (y # ys)"

text \<open>\<open>JSON.stringify(a)\<close> for an array \<open>a\<close> of strings.\<close>

definition JSON_stringify_strings :: "string list \<Rightarrow> string" where
  "JSON_stringify_strings rs = ''['' @ join_comma (map json_quote rs) @ '']''"

section \<open>Errors\<close>

text \<open>
  What a request can fail with: a rejection by the schema or by the handler's own check,
  the two errors thrown by the first loop of the order transaction, a constraint
  violation reported by SQLite, and the \<open>TypeError\<close> that JavaScript throws when a
  property of \<open>null\<close> or \<open>undefined\<close> is read.
\<close>

datatype error =
    ValidationError
  | EmptyOrder
  | ProductNotFound nat
  | InsufficientStock string int int
  | SqliteConstraint string
  | TypeError string

section \<open>Fraud detection (\<open>utils/fraudDetection.js\<close>)\<close>

text \<open>
  An item as \<open>detectFraudRisk\<close> reads it: the properties \<open>price\<close>, \<open>quantity\<close> and
  \<open>name\<close>, each of which may be absent (\<open>None\<close> is \<open>undefined\<close>); \<open>price\<close> and
  \<open>quantity\<close> are numbers and \<open>name\<close> is a string when present.
\<close>

record fraud_item =
  fi_price :: "jsnum option"
  fi_quantity :: "jsnum option"
  fi_name :: "string option"

text \<open>
  The order data: \<open>total_amount\<close> is any value; \<open>items\<close> is \<open>None\<close> when the
  property is absent or not an array. An element of the array is an object or, as
  \<open>None\<close>, \<open>null\<close> or \<open>undefined\<close>.
\<close>

record order_data =
  total_amount :: jsval
  od_items :: "fraud_item option list option"
  od_shippingAddress :: string

text \<open>
  The user's history as the query returns it: \<open>COUNT(*)\<close> and \<open>SUM(total_amount)\<close>,
  the latter \<open>NULL\<close> when the user has no order.
\<close>

record user_history =
  total_orders :: nat
  total_spent :: "real option"

text \<open>
  The value returned: \<open>fraud_reasons\<close> is a JavaScript string, the JSON text of the
  array \<open>reasons\<close>.
\<close>

record fraud_result =
  fraud_risk :: string
  fraud_reasons :: string

text \<open>The text a template literal gives for a property that may be absent.\<close>

fun template_text :: "string option \<Rightarrow> string" where
  "template_text None = ''undefined''"
| "template_text (Some s) = s"

text \<open>The callback of Rule 3: \<open>item.price > 300 && item.quantity > 3\<close> on an object.\<close>

definition bulk_item :: "fraud_item \<Rightarrow> bool" where
  "bulk_item item = (js_gt_opt (fi_price item) 300 \<and> js_gt_opt (fi_quantity item) 3)"

text \<open>
  \<open>items.find(item => item.price > 300 && item.quantity > 3)\<close>: the elements are
  visited in order up to the first one that satisfies the callback. Reading
  \<open>item.price\<close> of an element that is \<open>null\<close> or \<open>undefined\<close> throws a \<open>TypeError\<close>.
\<close>

fun find_item :: "fraud_item option list \<Rightarrow> error + fraud_item option" where
  "find_item [] = Inr None"
| "find_item (None # rest) = Inl (TypeError ''Cannot read properties of undefined'')"
| "find_item (Some item # rest) = (if bulk_item item then Inr (Some item) else find_item rest)"

definition highValueItem :: "order_data \<Rightarrow> error + fraud_item option" where
  "highValueItem orderData =
     (case od_items orderData of
        None \<Rightarrow> Inr None
      | Some its \<Rightarrow> find_item its)"

text \<open>
  The body of \<open>detectFraudRisk\<close> up to its last statement: the local variables
  \<open>riskScore\<close> and \<open>reasons\<close> after the three rules, or the exception thrown by
  Rule 3. \<open>userHistory\<close> is \<open>None\<close> when the argument is \<open>null\<close> or \<open>undefined\<close>.
\<close>

definition riskScore_reasons ::
  "order_data \<Rightarrow> user_history option \<Rightarrow> error + (nat \<times> string list)" where
  "riskScore_reasons orderData userHistory =
     (let totalAmount = parseFloat (total_amount orderData);
          (s0, r0) = (if isNaN totalAmount
                      then (10, [''Invalid order amount detected.''])
                      else (0, []));
          (s1, r1) = (if js_gt totalAmount 1000
                      then (s0 + 40, r0 @ [''High order value ($'' @ toFixed2 totalAmount @ '')''])
                      else (s0, r0));
          (s2, r2) = (if (case userHistory of None \<Rightarrow> False | Some h \<Rightarrow> total_orders h = 0)
                          \<and> js_gt totalAmount 500
                      then (s1 + 50, r1 @ [''Unusually large order for a first-time customer.''])
                      else (s1, r1))
      in (case highValueItem orderData of
            Inl e \<Rightarrow> Inl e
          | Inr None \<Rightarrow> Inr (s2, r2)
          | Inr (Some item) \<Rightarrow>
              Inr (s2 + 30,
                   r2 @ [''Bulk order of high-value item: '' @ template_text (fi_name item)])))"

definition risk_band :: "nat \<Rightarrow> string" where
  "risk_band riskScore =
     (if 70 \<le> riskScore then ''high'' else if 40 \<le> riskScore then ''medium'' else ''low'')"

definition detectFraudRisk :: "order_data \<Rightarrow> user_history option \<Rightarrow> error + fraud_result" where
  "detectFraudRisk orderData userHistory =
     (case riskScore_reasons orderData userHistory of
        Inl e \<Rightarrow> Inl e
      | Inr (riskScore, reasons) \<Rightarrow>
          Inr \<lparr> fraud_risk = risk_band riskScore,
                fraud_reasons = JSON_stringify_strings reasons \<rparr>)"


section \<open>The database (\<open>config/database.js\<close>)\<close>

text \<open>
  Each table is the list of its rows in insertion order, with the columns the order
  flow reads or writes. \<open>orders_seq\<close> is the \<open>AUTOINCREMENT\<close> counter of \<open>orders\<close>.
  Foreign keys are enforced (\<open>PRAGMA foreign_keys = ON\<close>).
\<close>

record user =
  u_id :: nat
  u_name :: string
  u_email :: string
  u_role :: string

record product =
  p_id :: nat
  p_name :: string
  p_price :: real
  p_stock_quantity :: int
  p_sku :: string

record order_row =
  o_id :: nat
  o_user_id :: nat
  o_total_amount :: real
  o_shipping_address :: string
  o_status :: string
  o_tracking_number :: string
  o_fraud_risk :: string
  o_fraud_reasons :: string

record order_item =
  oi_order_id :: nat
  oi_product_id :: nat
  oi_quantity :: int
  oi_price :: real

record inventory_transaction =
  it_product_id :: nat
  it_type :: string
  it_quantity :: int
  it_previous_quantity :: int
  it_new_quantity :: int
  it_reason :: string
  it_created_by :: nat

record shipment =
  sh_order_id :: nat
  sh_tracking_number :: string
  sh_status :: string
  sh_current_location :: string

record cart_item =
  ci_user_id :: nat
  ci_product_id :: nat
  ci_quantity :: int

record database =
  users :: "user list"
  products :: "product list"
  orders :: "order_row list"
  order_items :: "order_item list"
  inventory_transactions :: "inventory_transaction list"
  shipments :: "shipment list"
  cart_items :: "cart_item list"
  orders_seq :: nat

text \<open>\<open>SELECT ... FROM products WHERE id = ?\<close> and \<open>SELECT ... FROM users WHERE id = ?\<close>.\<close>

definition select_product :: "database \<Rightarrow> nat \<Rightarrow> product option" where
  "select_product db pid = find (\<lambda>p. p_id p = pid) (products db)"

definition select_user :: "database \<Rightarrow> nat \<Rightarrow> user option" where
  "select_user db uid = find (\<lambda>u. u_id u = uid) (users db)"

definition select_order :: "database \<Rightarrow> nat \<Rightarrow> order_row option" where
  "select_order db oid = find (\<lambda>r. o_id r = oid) (orders db)"

text \<open>\<open>UPDATE products SET stock_quantity = ? WHERE id = ?\<close>\<close>

definition updateStock :: "int \<Rightarrow> nat \<Rightarrow> database \<Rightarrow> database" where
  "updateStock newStock pid db =
     db\<lparr>products := map (\<lambda>p. if p_id p = pid then p\<lparr>p_stock_quantity := newStock\<rparr> else p)
                         (products db)\<rparr>"

text \<open>
  \<open>INSERT INTO orders\<close>: \<open>tracking_number\<close> is \<open>UNIQUE\<close>, \<open>user_id\<close> references
  \<open>users\<close>. The new row id is one more than the largest id used so far.
\<close>

definition next_order_id :: "database \<Rightarrow> nat" where
  "next_order_id db = Suc (foldr max (map o_id (orders db)) (orders_seq db))"

definition insertOrder :: "order_row \<Rightarrow> database \<Rightarrow> error + database" where
  "insertOrder row db =
     (if o_tracking_number row \<in> set (map o_tracking_number (orders db))
      then Inl (SqliteConstraint ''UNIQUE constraint failed: orders.tracking_number'')
      else if select_user db (o_user_id row) = None
      then Inl (SqliteConstraint ''FOREIGN KEY constraint failed'')
      else Inr (db\<lparr>orders := orders db @ [row], orders_seq := o_id row\<rparr>))"

text \<open>\<open>INSERT INTO order_items\<close>: \<open>order_id\<close> and \<open>product_id\<close> are foreign keys.\<close>

definition insertOrderItem :: "order_item \<Rightarrow> database \<Rightarrow> error + database" where
  "insertOrderItem row db =
     (if select_order db (oi_order_id row) = None \<or> select_product db (oi_product_id row) = None
      then Inl (SqliteConstraint ''FOREIGN KEY constraint failed'')
      else Inr (db\<lparr>order_items := order_items db @ [row]\<rparr>))"

text \<open>\<open>INSERT INTO inventory_transactions\<close>: \<open>product_id\<close> and \<open>created_by\<close> are foreign keys.\<close>

definition insertTransaction :: "inventory_transaction \<Rightarrow> database \<Rightarrow> error + database" where
  "insertTransaction row db =
     (if select_product db (it_product_id row) = None \<or> select_user db (it_created_by row) = None
      then Inl (SqliteConstraint ''FOREIGN KEY constraint failed'')
      else Inr (db\<lparr>inventory_transactions := inventory_transactions db @ [row]\<rparr>))"

text \<open>\<open>INSERT INTO shipments\<close>: \<open>tracking_number\<close> is \<open>UNIQUE\<close>, \<open>order_id\<close> a foreign key.\<close>

definition insertShipment :: "shipment \<Rightarrow> database \<Rightarrow> error + database" where
  "insertShipment row db =
     (if sh_tracking_number row \<in> set (map sh_tracking_number (shipments db))
      then Inl (SqliteConstraint ''UNIQUE constraint failed: shipments.tracking_number'')
      else if select_order db (sh_order_id row) = None
      then Inl (SqliteConstraint ''FOREIGN KEY constraint failed'')
      else Inr (db\<lparr>shipments := shipments db @ [row]\<rparr>))"

text \<open>\<open>DELETE FROM cart_items WHERE user_id = ?\<close>\<close>

definition clearCart :: "nat \<Rightarrow> database \<Rightarrow> database" where
  "clearCart userId db = db\<lparr>cart_items := filter (\<lambda>ci. ci_user_id ci \<noteq> userId) (cart_items db)\<rparr>"

text \<open>
  The cart as \<open>GET /cart\<close> reads it: the user's cart rows joined with their products.
  The \<open>ORDER BY\<close> of the query is left out.
\<close>

definition getLines :: "database \<Rightarrow> nat \<Rightarrow> (cart_item \<times> product) list" where
  "getLines db userId =
     concat (map (\<lambda>ci. case select_product db (ci_product_id ci) of
                          None \<Rightarrow> []
                        | Some p \<Rightarrow> [(ci, p)])
                 (filter (\<lambda>ci. ci_user_id ci = userId) (cart_items db)))"

text \<open>
  \<open>db.transaction(f)()\<close> of better-sqlite3: when \<open>f\<close> throws, every write it made is
  rolled back and the exception is passed on; otherwise the writes are committed. The
  body gives its outcome together with the database as it left it.
\<close>

definition db_transaction ::
  "(database \<Rightarrow> (error + 'a) \<times> database) \<Rightarrow> database \<Rightarrow> (error + 'a) \<times> database" where
  "db_transaction body db =
     (case body db of
        (Inl e, db') \<Rightarrow> (Inl e, db)
      | (Inr r, db') \<Rightarrow> (Inr r, db'))"


section \<open>Placing an order (\<open>POST /api/user/orders\<close> in \<open>routes/user.js\<close>)\<close>

text \<open>A line of the request body, as the schema \<open>createOrder\<close> admits it.\<close>

record order_line =
  productId :: nat
  quantity :: int

text \<open>
  The middleware \<open>validateRequest(schemas.createOrder)\<close>: at least one item, every
  \<open>productId\<close> and \<open>quantity\<close> a positive integer, a non-empty \<open>shippingAddress\<close>. The
  schema admits no other key in an item.
\<close>

definition validate_createOrder :: "order_line list \<Rightarrow> string \<Rightarrow> bool" where
  "validate_createOrder items shippingAddress =
     (items \<noteq> [] \<and> list_all (\<lambda>item. 0 < productId item \<and> 0 < quantity item) items
      \<and> shippingAddress \<noteq> [])"

record product_update =
  pu_productId :: nat
  pu_productName :: string
  pu_quantity :: int
  pu_price :: real
  pu_previousStock :: int
  pu_newStock :: int

text \<open>
  The first loop of the transaction: every line is checked against the product row read
  for it; \<open>totalAmount\<close> and \<open>productUpdates\<close> are the loop's variables.
\<close>

fun check_items ::
  "database \<Rightarrow> order_line list \<Rightarrow> real \<Rightarrow> product_update list
     \<Rightarrow> error + (real \<times> product_update list)" where
  "check_items db [] totalAmount productUpdates = Inr (totalAmount, productUpdates)"
| "check_items db (item # rest) totalAmount productUpdates =
     (case select_product db (productId item) of
        None \<Rightarrow> Inl (ProductNotFound (productId item))
      | Some product \<Rightarrow>
          if p_stock_quantity product < quantity item
          then Inl (InsufficientStock (p_name product) (p_stock_quantity product) (quantity item))
          else check_items db rest
                 (totalAmount + p_price product * real_of_int (quantity item))
                 (productUpdates @
                    [\<lparr> pu_productId = p_id product,
                       pu_productName = p_name product,
                       pu_quantity = quantity item,
                       pu_price = p_price product,
                       pu_previousStock = p_stock_quantity product,
                       pu_newStock = p_stock_quantity product - quantity item \<rparr>]))"

text \<open>\<open>SELECT COUNT(*) as total_orders, SUM(total_amount) as total_spent FROM orders WHERE user_id = ?\<close>\<close>

definition historyStmt :: "database \<Rightarrow> nat \<Rightarrow> user_history" where
  "historyStmt db userId =
     (let rows = filter (\<lambda>r. o_user_id r = userId) (orders db)
      in \<lparr> total_orders = length rows,
           total_spent = (if rows = [] then None else Some (sum_list (map o_total_amount rows))) \<rparr>)"

text \<open>
  The \<open>items\<close> handed to \<open>detectFraudRisk\<close> are the items of the request body: each is
  an object with \<open>productId\<close> and \<open>quantity\<close> and neither \<open>price\<close> nor \<open>name\<close>.
\<close>

definition request_item :: "order_line \<Rightarrow> fraud_item option" where
  "request_item item =
     Some \<lparr> fi_price = None, fi_quantity = Some (Num (real_of_int (quantity item))),
            fi_name = None \<rparr>"

text \<open>
  The second loop: for every entry of \<open>productUpdates\<close> an \<open>order_items\<close> row, the stock
  written as the entry's \<open>newStock\<close>, and a \<open>sale\<close> row in the transaction log. The
  result is the exception thrown, if any, and the database as the loop left it.
\<close>

fun write_updates ::
  "nat \<Rightarrow> nat \<Rightarrow> product_update list \<Rightarrow> database \<Rightarrow> error option \<times> database" where
  "write_updates orderId userId [] db = (None, db)"
| "write_updates orderId userId (item # rest) db =
     (case insertOrderItem
             \<lparr> oi_order_id = orderId, oi_product_id = pu_productId item,
               oi_quantity = pu_quantity item, oi_price = pu_price item \<rparr> db of
        Inl e \<Rightarrow> (Some e, db)
      | Inr db1 \<Rightarrow>
          (let db2 = updateStock (pu_newStock item) (pu_productId item) db1
           in case insertTransaction
                     \<lparr> it_product_id = pu_productId item,
                       it_type = ''sale'',
                       it_quantity = - pu_quantity item,
                       it_previous_quantity = pu_previousStock item,
                       it_new_quantity = pu_newStock item,
                       it_reason = ''Order #'' @ show_nat orderId,
                       it_created_by = userId \<rparr> db2 of
                Inl e \<Rightarrow> (Some e, db2)
              | Inr db3 \<Rightarrow> write_updates orderId userId rest db3))"

record transaction_result =
  tr_orderId :: nat
  tr_trackingNumber :: string
  tr_totalAmount :: real
  tr_fraud_risk :: string
  tr_fraud_reasons :: string
  tr_productUpdates :: "product_update list"

text \<open>
  The function passed to \<open>db.transaction\<close>. \<open>now\<close> and \<open>rnd\<close> stand for \<open>Date.now()\<close>
  and \<open>Math.floor(Math.random() * 100000)\<close>. The \<open>fraud_reasons\<close> column receives
  \<open>JSON.stringify\<close> of the string that \<open>detectFraudRisk\<close> returned.
\<close>

definition order_transaction ::
  "nat \<Rightarrow> nat \<Rightarrow> nat \<Rightarrow> order_line list \<Rightarrow> string \<Rightarrow> database
     \<Rightarrow> (error + transaction_result) \<times> database" where
  "order_transaction now rnd userId items shippingAddress db =
     (case check_items db items 0 [] of
        Inl e \<Rightarrow> (Inl e, db)
      | Inr (totalAmount, productUpdates) \<Rightarrow>
          (let userHistory = historyStmt db userId
           in case detectFraudRisk
                     \<lparr> total_amount = JNum (Num totalAmount),
                       od_items = Some (map request_item items),
                       od_shippingAddress = shippingAddress \<rparr>
                     (Some userHistory) of
                Inl e \<Rightarrow> (Inl e, db)
              | Inr fr \<Rightarrow>
                  (let trackingNumber = ''TRK'' @ show_nat now @ show_nat rnd;
                       orderId = next_order_id db
                   in case insertOrder
                             \<lparr> o_id = orderId, o_user_id = userId, o_total_amount = totalAmount,
                               o_shipping_address = shippingAddress, o_status = ''pending'',
                               o_tracking_number = trackingNumber, o_fraud_risk = fraud_risk fr,
                               o_fraud_reasons = json_quote (fraud_reasons fr) \<rparr> db of
                        Inl e \<Rightarrow> (Inl e, db)
                      | Inr db1 \<Rightarrow>
                          (case write_updates orderId userId productUpdates db1 of
                             (Some e, db2) \<Rightarrow> (Inl e, db2)
                           | (None, db2) \<Rightarrow>
                               (case insertShipment
                                       \<lparr> sh_order_id = orderId,
                                         sh_tracking_number = trackingNumber,
                                         sh_status = ''pending'',
                                         sh_current_location = ''Processing Center'' \<rparr> db2 of
                                  Inl e \<Rightarrow> (Inl e, db2)
                                | Inr db3 \<Rightarrow>
                                    (Inr \<lparr> tr_orderId = orderId,
                                           tr_trackingNumber = trackingNumber,
                                           tr_totalAmount = totalAmount,
                                           tr_fraud_risk = fraud_risk fr,
                                           tr_fraud_reasons = fraud_reasons fr,
                                           tr_productUpdates = productUpdates \<rparr>,
                                     clearCart userId db3))))))"

subsection \<open>Events and the response\<close>

text \<open>
  The payload of \<open>order_created\<close> is the order row joined with the user's name and
  email; its \<open>fraud_reasons\<close> is \<open>JSON.parse\<close> of the column, which is not modelled: the
  payload carries the column's text. The payload of \<open>inventory_changed\<close> is the product
  row read (\<open>None\<close> when there is none), with the number of its order items when the
  admin route sends it. The last four are the events of the socket handlers.
  \<open>event_name\<close> is the name the event is emitted under.
\<close>

record order_broadcast =
  ob_order :: order_row
  ob_user_name :: string
  ob_user_email :: string

datatype event =
    Order_created order_broadcast
  | Inventory_changed "product option" "nat option"
  | Cart_updated nat
  | Inventory_updated nat int int string
  | Inventory_update_success nat int
  | Socket_error string
  | Hello_from_server string

fun event_name :: "event \<Rightarrow> string" where
  "event_name (Order_created ob) = ''order_created''"
| "event_name (Inventory_changed p n) = ''inventory_changed''"
| "event_name (Cart_updated uid) = ''cart_updated''"
| "event_name (Inventory_updated pid q c r) = ''inventory_updated''"
| "event_name (Inventory_update_success pid q) = ''inventory_update_success''"
| "event_name (Socket_error m) = ''error''"
| "event_name (Hello_from_server m) = ''hello_from_server''"

text \<open>
  The loop that emits \<open>inventory_changed\<close> for every entry of \<open>productUpdates\<close>. The
  row read is emitted first; reading \<open>updatedProduct.id\<close> for the log line then throws
  when the row is not there (the payload is \<open>undefined\<close>, here \<open>None\<close>).
\<close>

fun emit_inventory_changed :: "database \<Rightarrow> product_update list \<Rightarrow> error option \<times> event list" where
  "emit_inventory_changed db [] = (None, [])"
| "emit_inventory_changed db (item # rest) =
     (case select_product db (pu_productId item) of
        None \<Rightarrow> (Some (TypeError ''Cannot read properties of undefined''), [Inventory_changed None None])
      | Some updatedProduct \<Rightarrow>
          (case emit_inventory_changed db rest of
             (e, evs) \<Rightarrow> (e, Inventory_changed (Some updatedProduct) None # evs)))"

text \<open>
  The body of the 201 response. \<open>fraudReasons\<close> is the \<open>fraud_reasons\<close> that the
  transaction returned, a string.
\<close>

record order_response =
  r_orderId :: nat
  r_trackingNumber :: string
  r_totalAmount :: real
  r_fraudRisk :: string
  r_fraudReasons :: jsval

text \<open>
  The status of an error response: 400 when the message contains \<open>stock\<close> or
  \<open>not found\<close>, which holds for the two errors thrown by the first loop and for no
  message of SQLite or of a \<open>TypeError\<close>; 500 otherwise. A rejection by the middleware
  or by the check for an empty list is a 400.
\<close>

fun statusCode :: "error \<Rightarrow> nat" where
  "statusCode ValidationError = 400"
| "statusCode EmptyOrder = 400"
| "statusCode (ProductNotFound pid) = 400"
| "statusCode (InsufficientStock n a r) = 400"
| "statusCode (SqliteConstraint m) = 500"
| "statusCode (TypeError m) = 500"

text \<open>
  The route: the middleware \<open>validateRequest(schemas.createOrder)\<close>, then the handler.
  \<open>io\<close> says whether \<open>req.io\<close> is set. The result is the response (an error stands
  for the error response the \<open>catch\<close> block or the middleware sends), the database
  after the request and the events emitted, in order.
\<close>

definition placeOrder ::
  "bool \<Rightarrow> nat \<Rightarrow> nat \<Rightarrow> nat \<Rightarrow> order_line list \<Rightarrow> string \<Rightarrow> database
     \<Rightarrow> (error + order_response) \<times> database \<times> event list" where
  "placeOrder io now rnd userId items shippingAddress db =
     (if \<not> validate_createOrder items shippingAddress then (Inl ValidationError, db, [])
      else if items = [] then (Inl EmptyOrder, db, [])
      else
        case db_transaction (order_transaction now rnd userId items shippingAddress) db of
          (Inl e, db') \<Rightarrow> (Inl e, db', [])
        | (Inr transactionResult, db') \<Rightarrow>
            (case select_order db' (tr_orderId transactionResult) of
               None \<Rightarrow> (Inl (TypeError ''Cannot read properties of undefined''), db', [])
             | Some row \<Rightarrow>
                 (case select_user db' (o_user_id row) of
                    None \<Rightarrow> (Inl (TypeError ''Cannot read properties of undefined''), db', [])
                  | Some u \<Rightarrow>
                      (let newOrderForBroadcast =
                             \<lparr> ob_order = row, ob_user_name = u_name u, ob_user_email = u_email u \<rparr>;
                           response =
                             \<lparr> r_orderId = tr_orderId transactionResult,
                               r_trackingNumber = tr_trackingNumber transactionResult,
                               r_totalAmount = tr_totalAmount transactionResult,
                               r_fraudRisk = tr_fraud_risk transactionResult,
                               r_fraudReasons = JStr (tr_fraud_reasons transactionResult) \<rparr>
                       in if io then
                            (case emit_inventory_changed db' (tr_productUpdates transactionResult) of
                               (Some e, evs) \<Rightarrow>
                                 (Inl e, db', Order_created newOrderForBroadcast # evs)
                             | (None, evs) \<Rightarrow>
                                 (Inr response, db',
                                  Order_created newOrderForBroadcast # evs @ [Cart_updated userId]))
                          else (Inr response, db', [])))))"


section \<open>Setting the stock as an administrator\<close>

subsection \<open>\<open>PUT /api/admin/products/:id/stock\<close> in \<open>routes/admin.js\<close>\<close>

text \<open>
  \<open>stock_quantity\<close> of the request body: some value that is not a number, or a number,
  taken to be an integer as the column is.
\<close>

datatype body_value = NotANumber | Number int

text \<open>
  The result is the status with the product sent back, the database after the request
  and the events emitted. \<open>total_orders\<close> of the payload is \<open>COUNT(oi.id)\<close> over the
  order items of the product.
\<close>

definition put_product_stock ::
  "bool \<Rightarrow> nat \<Rightarrow> body_value \<Rightarrow> database
     \<Rightarrow> (nat \<times> (product \<times> nat) option) \<times> database \<times> event list" where
  "put_product_stock io pid stock_quantity db =
     (case stock_quantity of
        NotANumber \<Rightarrow> ((400, None), db, [])
      | Number q \<Rightarrow>
          if q < 0 then ((400, None), db, [])
          else
            (let db' = updateStock q pid db;
                 changes = length (filter (\<lambda>p. p_id p = pid) (products db))
             in if changes = 0 then ((404, None), db', [])
                else
                  (let total_orders = length (filter (\<lambda>oi. oi_product_id oi = pid) (order_items db'));
                       updatedProduct = select_product db' pid
                   in ((200, map_option (\<lambda>p. (p, total_orders)) updatedProduct), db',
                       if io then [Inventory_changed updatedProduct (Some total_orders)] else []))))"

subsection \<open>The event \<open>inventory_update\<close> in \<open>socket/socketHandler.js\<close>\<close>





section \<open>The socket events of the server (\<open>server.js\<close>)\<close>


section \<open>Observations used to state the properties\<close>






text \<open>The user has no row in \<open>orders\<close>.\<close>

definition no_earlier_order :: "database \<Rightarrow> nat \<Rightarrow> bool" where
  "no_earlier_order db userId = list_all (\<lambda>r. o_user_id r \<noteq> userId) (orders db)"

text \<open>The stock of a product, \<open>None\<close> when there is no such product.\<close>

definition stock_of :: "database \<Rightarrow> nat \<Rightarrow> int option" where
  "stock_of db pid = map_option p_stock_quantity (select_product db pid)"


text \<open>Every line names a product that exists and asks for no more than its stock.\<close>

definition lines_ok :: "database \<Rightarrow> order_line list \<Rightarrow> bool" where
  "lines_ok db items =
     list_all (\<lambda>item. case select_product db (productId item) of
                         None \<Rightarrow> False
                       | Some p \<Rightarrow> quantity item \<le> p_stock_quantity p) items"

text \<open>The last line of an order that names a given product.\<close>

definition last_line_for :: "nat \<Rightarrow> order_line list \<Rightarrow> order_line option" where
  "last_line_for pid items = find (\<lambda>item. productId item = pid) (rev items)"


text \<open>
  What the first loop records for a line, and the rows the second loop writes for such
  a record.
\<close>

definition line_update :: "database \<Rightarrow> order_line \<Rightarrow> product_update option" where
  "line_update db item =
     map_option (\<lambda>p. \<lparr> pu_productId = p_id p, pu_productName = p_name p,
                        pu_quantity = quantity item, pu_price = p_price p,
                        pu_previousStock = p_stock_quantity p,
                        pu_newStock = p_stock_quantity p - quantity item \<rparr>)
                (select_product db (productId item))"

definition updates_of :: "database \<Rightarrow> order_line list \<Rightarrow> product_update list" where
  "updates_of db items = List.map_filter (line_update db) items"

definition amount_of :: "product_update list \<Rightarrow> real" where
  "amount_of ups = sum_list (map (\<lambda>u. pu_price u * real_of_int (pu_quantity u)) ups)"

definition oi_row :: "nat \<Rightarrow> product_update \<Rightarrow> order_item" where
  "oi_row oid u = \<lparr> oi_order_id = oid, oi_product_id = pu_productId u,
                    oi_quantity = pu_quantity u, oi_price = pu_price u \<rparr>"

definition it_row :: "nat \<Rightarrow> nat \<Rightarrow> product_update \<Rightarrow> inventory_transaction" where
  "it_row oid uid u = \<lparr> it_product_id = pu_productId u, it_type = ''sale'',
                        it_quantity = - pu_quantity u,
                        it_previous_quantity = pu_previousStock u,
                        it_new_quantity = pu_newStock u,
                        it_reason = ''Order #'' @ show_nat oid,
                        it_created_by = uid \<rparr>"

definition set_stock :: "product_update \<Rightarrow> product \<Rightarrow> product" where
  "set_stock u p = (if p_id p = pu_productId u then p\<lparr>p_stock_quantity := pu_newStock u\<rparr> else p)"

definition apply_stock :: "product_update list \<Rightarrow> product list \<Rightarrow> product list" where
  "apply_stock ups ps = fold (\<lambda>u. map (set_stock u)) ups ps"

definition updates_written :: "nat \<Rightarrow> nat \<Rightarrow> product_update list \<Rightarrow> database \<Rightarrow> database" where
  "updates_written oid uid ups db =
     db\<lparr> products := apply_stock ups (products db),
         order_items := order_items db @ map (oi_row oid) ups,
         inventory_transactions := inventory_transactions db @ map (it_row oid uid) ups \<rparr>"

text \<open>
  The rows and the database that a committed order leaves, and the conditions under
  which the transaction commits: the lines pass the first loop, the user exists, and
  the tracking number is not in use.
\<close>

definition trackingNumber_of :: "nat \<Rightarrow> nat \<Rightarrow> string" where
  "trackingNumber_of now rnd = ''TRK'' @ show_nat now @ show_nat rnd"

text \<open>
  The order data that the route builds, and the value that \<open>detectFraudRisk\<close> returns
  for them; \<open>projr\<close> reads the value returned, and on these data the evaluator returns
  (lemma \<open>detectFraudRisk_order\<close>).
\<close>

definition order_data_of :: "order_line list \<Rightarrow> string \<Rightarrow> database \<Rightarrow> order_data" where
  "order_data_of items shippingAddress db =
     \<lparr> total_amount = JNum (Num (amount_of (updates_of db items))),
       od_items = Some (map request_item items),
       od_shippingAddress = shippingAddress \<rparr>"

definition order_fraud :: "nat \<Rightarrow> order_line list \<Rightarrow> string \<Rightarrow> database \<Rightarrow> fraud_result" where
  "order_fraud userId items shippingAddress db =
     projr (detectFraudRisk (order_data_of items shippingAddress db) (Some (historyStmt db userId)))"

definition new_order_row :: "nat \<Rightarrow> nat \<Rightarrow> nat \<Rightarrow> order_line list \<Rightarrow> string \<Rightarrow> database \<Rightarrow> order_row" where
  "new_order_row now rnd userId items shippingAddress db =
     \<lparr> o_id = next_order_id db, o_user_id = userId,
       o_total_amount = amount_of (updates_of db items),
       o_shipping_address = shippingAddress, o_status = ''pending'',
       o_tracking_number = trackingNumber_of now rnd,
       o_fraud_risk = fraud_risk (order_fraud userId items shippingAddress db),
       o_fraud_reasons = json_quote (fraud_reasons (order_fraud userId items shippingAddress db)) \<rparr>"

definition new_shipment :: "nat \<Rightarrow> nat \<Rightarrow> database \<Rightarrow> shipment" where
  "new_shipment now rnd db =
     \<lparr> sh_order_id = next_order_id db, sh_tracking_number = trackingNumber_of now rnd,
       sh_status = ''pending'', sh_current_location = ''Processing Center'' \<rparr>"

definition committed :: "nat \<Rightarrow> nat \<Rightarrow> nat \<Rightarrow> order_line list \<Rightarrow> string \<Rightarrow> database \<Rightarrow> database" where
  "committed now rnd userId items shippingAddress db =
     db\<lparr> products := apply_stock (updates_of db items) (products db),
         orders := orders db @ [new_order_row now rnd userId items shippingAddress db],
         order_items := order_items db @ map (oi_row (next_order_id db)) (updates_of db items),
         inventory_transactions :=
           inventory_transactions db @ map (it_row (next_order_id db) userId) (updates_of db items),
         shipments := shipments db @ [new_shipment now rnd db],
         cart_items := filter (\<lambda>ci. ci_user_id ci \<noteq> userId) (cart_items db),
         orders_seq := next_order_id db \<rparr>"

definition transaction_result_of :: "nat \<Rightarrow> nat \<Rightarrow> nat \<Rightarrow> order_line list \<Rightarrow> string \<Rightarrow> database \<Rightarrow> transaction_result" where
  "transaction_result_of now rnd userId items shippingAddress db =
     \<lparr> tr_orderId = next_order_id db, tr_trackingNumber = trackingNumber_of now rnd,
       tr_totalAmount = amount_of (updates_of db items),
       tr_fraud_risk = fraud_risk (order_fraud userId items shippingAddress db),
       tr_fraud_reasons = fraud_reasons (order_fraud userId items shippingAddress db),
       tr_productUpdates = updates_of db items \<rparr>"

definition can_commit :: "nat \<Rightarrow> nat \<Rightarrow> nat \<Rightarrow> order_line list \<Rightarrow> database \<Rightarrow> bool" where
  "can_commit now rnd userId items db =
     (lines_ok db items
      \<and> select_user db userId \<noteq> None
      \<and> trackingNumber_of now rnd \<notin> set (map o_tracking_number (orders db))
      \<and> trackingNumber_of now rnd \<notin> set (map sh_tracking_number (shipments db)))"

text \<open>The response and the events of a committed order when \<open>req.io\<close> is set.\<close>

definition response_of :: "nat \<Rightarrow> nat \<Rightarrow> nat \<Rightarrow> order_line list \<Rightarrow> string \<Rightarrow> database \<Rightarrow> order_response" where
  "response_of now rnd userId items shippingAddress db =
     \<lparr> r_orderId = next_order_id db,
       r_trackingNumber = trackingNumber_of now rnd,
       r_totalAmount = amount_of (updates_of db items),
       r_fraudRisk = fraud_risk (order_fraud userId items shippingAddress db),
       r_fraudReasons = JStr (fraud_reasons (order_fraud userId items shippingAddress db)) \<rparr>"

definition events_of :: "nat \<Rightarrow> nat \<Rightarrow> nat \<Rightarrow> order_line list \<Rightarrow> string \<Rightarrow> database \<Rightarrow> event list" where
  "events_of now rnd userId items shippingAddress db =
     Order_created
       \<lparr> ob_order = new_order_row now rnd userId items shippingAddress db,
         ob_user_name = (case select_user db userId of None \<Rightarrow> [] | Some u \<Rightarrow> u_name u),
         ob_user_email = (case select_user db userId of None \<Rightarrow> [] | Some u \<Rightarrow> u_email u) \<rparr>
     # map (\<lambda>u. Inventory_changed
                  (select_product (committed now rnd userId items shippingAddress db) (pu_productId u))
                  None)
           (updates_of db items)
     @ [Cart_updated userId]"


section \<open>The sample data (\<open>insertSampleData\<close> in \<open>config/database.js\<close>)\<close>

definition sample_users :: "user list" where
  "sample_users =
     [\<lparr> u_id = 1, u_name = ''Admin User'', u_email = ''admin@supply-chain.com'', u_role = ''admin'' \<rparr>,
      \<lparr> u_id = 2, u_name = ''John Doe'', u_email = ''user@supply-chain.com'', u_role = ''user'' \<rparr>]"

definition sample_products :: "product list" where
  "sample_products =
     [\<lparr> p_id = 1, p_name = ''Quantum Laptop'', p_price = 129999 / 100, p_stock_quantity = 50, p_sku = ''ELEC-LP-01'' \<rparr>,
      \<lparr> p_id = 2, p_name = ''Ergo-Comfort Mouse'', p_price = 4999 / 100, p_stock_quantity = 250, p_sku = ''ELEC-MS-01'' \<rparr>,
      \<lparr> p_id = 3, p_name = ''Aeron Office Chair'', p_price = 99999 / 100, p_stock_quantity = 25, p_sku = ''FURN-CH-01'' \<rparr>,
      \<lparr> p_id = 4, p_name = ''Galaxy Smartphone S-25'', p_price = 89999 / 100, p_stock_quantity = 150, p_sku = ''ELEC-PH-01'' \<rparr>,
      \<lparr> p_id = 5, p_name = ''Architect Desk Lamp'', p_price = 7999 / 100, p_stock_quantity = 100, p_sku = ''FURN-LP-01'' \<rparr>,
      \<lparr> p_id = 6, p_name = ''SonicFlow Headphones'', p_price = 24999 / 100, p_stock_quantity = 80, p_sku = ''ELEC-HP-01'' \<rparr>,
      \<lparr> p_id = 7, p_name = ''Lift-Up Standing Desk'', p_price = 49999 / 100, p_stock_quantity = 30, p_sku = ''FURN-DK-01'' \<rparr>]"

text \<open>
  The database after the first start, with the first seven of the fifteen sample
  products, and the same with a cart for John Doe.
\<close>

definition sample_db :: database where
  "sample_db =
     \<lparr> users = sample_users, products = sample_products, orders = [], order_items = [],
       inventory_transactions = [], shipments = [], cart_items = [], orders_seq = 0 \<rparr>"

definition sample_cart_db :: database where
  "sample_cart_db =
     sample_db\<lparr>cart_items :=
       [\<lparr> ci_user_id = 2, ci_product_id = 2, ci_quantity = 1 \<rparr>,
        \<lparr> ci_user_id = 2, ci_product_id = 5, ci_quantity = 2 \<rparr>,
        \<lparr> ci_user_id = 1, ci_product_id = 6, ci_quantity = 1 \<rparr>]\<rparr>"

text \<open>The sample data with one more product.\<close>

definition rack_db :: database where
  "rack_db =
     sample_db\<lparr>products :=
       \<lparr> p_id = 16, p_name = ''Rack Server'', p_price = 1500, p_stock_quantity = 3,
         p_sku = ''ELEC-SV-01'' \<rparr> # sample_products\<rparr>"

text \<open>
  The sample data with a third user, Jane Roe, who has placed an order, and with the
  additional product.
\<close>

definition busy_rack_db :: database where
  "busy_rack_db =
     rack_db\<lparr>users := sample_users @
                [\<lparr> u_id = 3, u_name = ''Jane Roe'', u_email = ''jane@supply-chain.com'',
                   u_role = ''user'' \<rparr>],
             orders :=
               [\<lparr> o_id = 4, o_user_id = 3, o_total_amount = 4999 / 100,
                  o_shipping_address = ''2 High St'', o_status = ''delivered'',
                  o_tracking_number = ''TRK169000000000077'', o_fraud_risk = ''low'',
                  o_fraud_reasons = json_quote ''[]'' \<rparr>],
             order_items :=
               [\<lparr> oi_order_id = 4, oi_product_id = 2, oi_quantity = 1, oi_price = 4999 / 100 \<rparr>],
             shipments :=
               [\<lparr> sh_order_id = 4, sh_tracking_number = ''TRK169000000000077'',
                  sh_status = ''delivered'', sh_current_location = ''Delivered'' \<rparr>],
             orders_seq := 4\<rparr>"

text \<open>The sample data after a first order of John Doe.\<close>

definition returning_db :: database where
  "returning_db =
     sample_db\<lparr>orders :=
       [\<lparr> o_id = 1, o_user_id = 2, o_total_amount = 4999 / 100,
          o_shipping_address = ''1 Main St'', o_status = ''delivered'',
          o_tracking_number = ''TRK169000000000042'', o_fraud_risk = ''low'',
          o_fraud_reasons = json_quote ''[]'' \<rparr>],
       order_items := [\<lparr> oi_order_id = 1, oi_product_id = 2, oi_quantity = 1, oi_price = 4999 / 100 \<rparr>],
       inventory_transactions :=
         [\<lparr> it_product_id = 2, it_type = ''sale'', it_quantity = - 1, it_previous_quantity = 251,
            it_new_quantity = 250, it_reason = ''Order #1'', it_created_by = 2 \<rparr>],
       shipments := [\<lparr> sh_order_id = 1, sh_tracking_number = ''TRK169000000000042'',
                       sh_status = ''delivered'', sh_current_location = ''Delivered'' \<rparr>],
       orders_seq := 1\<rparr>"

text \<open>
  The same after the shipment of that order was given another tracking number, the one
  that the parameters of the examples produce.
\<close>

definition relabelled_db :: database where
  "relabelled_db =
     returning_db\<lparr>shipments :=
       [\<lparr> sh_order_id = 1, sh_tracking_number = ''TRK17000000000004711'',
          sh_status = ''delivered'', sh_current_location = ''Delivered'' \<rparr>]\<rparr>"

section \<open>Evaluating the decimal functions\<close>

lemma show_nat_small: "n < 10 \<Longrightarrow> show_nat n = [digit_char n]"
  by (subst show_nat.simps) simp

lemma show_nat_big: "10 \<le> n \<Longrightarrow> show_nat n = show_nat (n div 10) @ [digit_char (n mod 10)]"
  by (subst show_nat.simps) simp

lemmas show_nat_eval = show_nat_small show_nat_big digit_char_def


lemma isNaN_iff: "isNaN x \<longleftrightarrow> x = NaN"
  by (cases x) simp_all

section \<open>Properties of the fraud evaluator\<close>







lemma detectFraudRisk_Inr:
  "riskScore_reasons od h = Inr (s, rs) \<Longrightarrow>
   detectFraudRisk od h = Inr \<lparr> fraud_risk = risk_band s, fraud_reasons = JSON_stringify_strings rs \<rparr>"
  by (simp add: detectFraudRisk_def)

lemma detectFraudRisk_Inl: "riskScore_reasons od h = Inl e \<Longrightarrow> detectFraudRisk od h = Inl e"
  by (simp add: detectFraudRisk_def)




lemma find_item_request: "find_item (map request_item items) = Inr None"
  by (induction items) (simp_all add: request_item_def bulk_item_def)

lemma highValueItem_request [simp]:
  "highValueItem \<lparr> total_amount = t, od_items = Some (map request_item items),
                    od_shippingAddress = a \<rparr> = Inr None"
  by (simp add: highValueItem_def find_item_request)

lemma detectFraudRisk_request:
  "\<exists>fr. detectFraudRisk \<lparr> total_amount = t, od_items = Some (map request_item items),
                            od_shippingAddress = a \<rparr> h = Inr fr"
  by (simp add: detectFraudRisk_def riskScore_reasons_def Let_def)

lemma detectFraudRisk_order:
  "detectFraudRisk \<lparr> total_amount = JNum (Num (amount_of (updates_of db items))),
                      od_items = Some (map request_item items),
                      od_shippingAddress = shippingAddress \<rparr> (Some (historyStmt db userId))
   = Inr (order_fraud userId items shippingAddress db)"
proof -
  from detectFraudRisk_request obtain fr where
    "detectFraudRisk \<lparr> total_amount = JNum (Num (amount_of (updates_of db items))),
                      od_items = Some (map request_item items),
                      od_shippingAddress = shippingAddress \<rparr> (Some (historyStmt db userId))
     = Inr fr" by blast
  then show ?thesis by (simp add: order_fraud_def order_data_of_def)
qed

section \<open>The two loops of the transaction\<close>

lemma find_map_key:
  assumes "\<And>p. key (f p) = key p"
  shows "find (\<lambda>p. key p = k) (map f ps) = map_option f (find (\<lambda>p. key p = k) ps)"
  using assms by (induction ps) auto

lemma p_id_set_stock [simp]: "p_id (set_stock u p) = p_id p"
  by (simp add: set_stock_def)

lemma find_set_stock:
  "find (\<lambda>p. p_id p = k) (map (set_stock u) ps) = map_option (set_stock u) (find (\<lambda>p. p_id p = k) ps)"
  by (rule find_map_key) simp

lemma find_apply_stock_None:
  "find (\<lambda>p. p_id p = k) (apply_stock ups ps) = None \<longleftrightarrow> find (\<lambda>p. p_id p = k) ps = None"
  unfolding apply_stock_def
  by (induction ups arbitrary: ps) (simp_all add: find_set_stock)

lemma check_items_ok:
  "lines_ok db items \<Longrightarrow>
   check_items db items t ups = Inr (t + amount_of (updates_of db items), ups @ updates_of db items)"
proof (induction items arbitrary: t ups)
  case Nil
  then show ?case by (simp add: updates_of_def amount_of_def List.map_filter_simps)
next
  case (Cons item items)
  from Cons.prems obtain p where p: "select_product db (productId item) = Some p"
    and q: "quantity item \<le> p_stock_quantity p" and rest: "lines_ok db items"
    by (auto simp: lines_ok_def split: option.splits)
  show ?case
    using p q Cons.IH [OF rest]
    by (simp add: updates_of_def amount_of_def List.map_filter_simps line_update_def algebra_simps)
qed

lemma check_items_Inr:
  "check_items db items t ups = Inr r \<Longrightarrow> lines_ok db items"
proof (induction items arbitrary: t ups)
  case Nil
  then show ?case by (simp add: lines_ok_def)
next
  case (Cons item items)
  show ?case
  proof (cases "select_product db (productId item)")
    case None
    with Cons.prems show ?thesis by simp
  next
    case (Some p)
    with Cons.prems have q: "quantity item \<le> p_stock_quantity p"
      by (simp split: if_splits)
    with Cons.prems Some have "lines_ok db items"
      by (auto dest: Cons.IH)
    with q Some show ?thesis by (simp add: lines_ok_def)
  qed
qed

lemma check_items_Inl:
  "check_items db items t ups = Inl e \<Longrightarrow> \<not> lines_ok db items"
  using check_items_ok [of db items t ups] by auto

lemma select_product_updateStock:
  "select_product (updateStock n pid db) k =
     map_option (\<lambda>p. if p_id p = pid then p\<lparr>p_stock_quantity := n\<rparr> else p) (select_product db k)"
  unfolding select_product_def updateStock_def
  by (simp add: find_map_key [where key = p_id])

lemma write_updates_ok:
  assumes "select_order db oid \<noteq> None" and "select_user db uid \<noteq> None"
    and "list_all (\<lambda>u. select_product db (pu_productId u) \<noteq> None) ups"
  shows "write_updates oid uid ups db = (None, updates_written oid uid ups db)"
  using assms
proof (induction ups arbitrary: db)
  case Nil
  then show ?case by (simp add: updates_written_def apply_stock_def)
next
  case (Cons u ups)
  let ?db1 = "db\<lparr>order_items := order_items db @ [oi_row oid u]\<rparr>"
  let ?db2 = "updateStock (pu_newStock u) (pu_productId u) ?db1"
  let ?db3 = "?db2\<lparr>inventory_transactions := inventory_transactions ?db2 @ [it_row oid uid u]\<rparr>"
  from Cons.prems have pu: "select_product db (pu_productId u) \<noteq> None"
    and rest: "list_all (\<lambda>u. select_product db (pu_productId u) \<noteq> None) ups"
    by simp_all
  have s1: "insertOrderItem (oi_row oid u) db = Inr ?db1"
    using Cons.prems(1) pu by (simp add: insertOrderItem_def oi_row_def)
  have sp2: "\<And>k. select_product ?db2 k \<noteq> None \<longleftrightarrow> select_product db k \<noteq> None"
    by (simp add: select_product_updateStock) (simp add: select_product_def)
  have su2: "select_user ?db2 uid \<noteq> None"
    using Cons.prems(2) by (simp add: select_user_def updateStock_def)
  have s3: "insertTransaction (it_row oid uid u) ?db2 = Inr ?db3"
    using sp2 [of "pu_productId u"] pu su2 by (simp add: insertTransaction_def it_row_def)
  have sp3: "\<And>k. select_product ?db3 k = select_product ?db2 k"
    by (simp add: select_product_def)
  have p3: "\<And>k. select_product ?db3 k \<noteq> None \<longleftrightarrow> select_product db k \<noteq> None"
    unfolding sp3 by (rule sp2)
  have pre3a: "select_order ?db3 oid \<noteq> None"
    using Cons.prems(1) by (simp add: select_order_def updateStock_def)
  have pre3b: "select_user ?db3 uid \<noteq> None"
    using Cons.prems(2) by (simp add: select_user_def updateStock_def)
  have pre3c: "list_all (\<lambda>u. select_product ?db3 (pu_productId u) \<noteq> None) ups"
    using rest by (simp only: p3)
  have step: "write_updates oid uid (u # ups) db = write_updates oid uid ups ?db3"
    using s1 s3 by (simp add: oi_row_def it_row_def Let_def)
  have ss: "(\<lambda>p. if p_id p = pu_productId u then p\<lparr>p_stock_quantity := pu_newStock u\<rparr> else p)
              = set_stock u"
    by (simp add: fun_eq_iff set_stock_def)
  have eq: "updates_written oid uid ups ?db3 = updates_written oid uid (u # ups) db"
    by (simp add: updates_written_def updateStock_def apply_stock_def ss)
  show ?case
    using Cons.IH [OF pre3a pre3b pre3c] step eq by simp
qed


lemma next_order_id_fresh: "r \<in> set (orders db) \<Longrightarrow> o_id r < next_order_id db"
proof -
  have "\<And>rs n. r \<in> set rs \<Longrightarrow> o_id r \<le> foldr max (map o_id rs) n"
  proof -
    fix rs :: "order_row list" and n
    show "r \<in> set rs \<Longrightarrow> o_id r \<le> foldr max (map o_id rs) n"
      by (induction rs) auto
  qed
  then show "r \<in> set (orders db) \<Longrightarrow> o_id r < next_order_id db"
    by (simp add: next_order_id_def less_Suc_eq_le)
qed

lemma find_append_fresh:
  "(\<And>x. x \<in> set xs \<Longrightarrow> \<not> P x) \<Longrightarrow> P y \<Longrightarrow> find P (xs @ [y]) = Some y"
  by (induction xs) auto

lemma select_order_new:
  "o_id row = next_order_id db \<Longrightarrow> find (\<lambda>r. o_id r = next_order_id db) (orders db @ [row]) = Some row"
  by (rule find_append_fresh) (auto dest: next_order_id_fresh)

lemma select_product_p_id: "select_product db k = Some p \<Longrightarrow> p_id p = k"
  by (auto simp: select_product_def find_Some_iff)

lemma updates_of_Cons:
  "updates_of db (item # items) =
     (case line_update db item of None \<Rightarrow> updates_of db items | Some u \<Rightarrow> u # updates_of db items)"
  unfolding updates_of_def by simp

lemma updates_of_Nil [simp]: "updates_of db [] = []"
  by (simp add: updates_of_def)

lemma updates_of_product:
  "list_all (\<lambda>u. select_product db (pu_productId u) \<noteq> None) (updates_of db items)"
proof (induction items)
  case Nil
  show ?case by simp
next
  case (Cons item items)
  show ?case
  proof (cases "select_product db (productId item)")
    case None
    with Cons show ?thesis by (simp add: updates_of_Cons line_update_def)
  next
    case (Some p)
    from Some have "p_id p = productId item" by (rule select_product_p_id)
    with Some Cons show ?thesis by (simp add: updates_of_Cons line_update_def)
  qed
qed

lemma order_transaction_commits:
  assumes "can_commit now rnd userId items db"
  shows "order_transaction now rnd userId items shippingAddress db =
           (Inr (transaction_result_of now rnd userId items shippingAddress db),
            committed now rnd userId items shippingAddress db)"
proof -
  let ?ups = "updates_of db items"
  let ?oid = "next_order_id db"
  let ?row = "new_order_row now rnd userId items shippingAddress db"
  let ?db1 = "db\<lparr>orders := orders db @ [?row], orders_seq := ?oid\<rparr>"
  let ?db2 = "updates_written ?oid userId ?ups ?db1"
  let ?db3 = "?db2\<lparr>shipments := shipments ?db2 @ [new_shipment now rnd db]\<rparr>"
  from assms have ok: "lines_ok db items" and usr: "select_user db userId \<noteq> None"
    and t1: "trackingNumber_of now rnd \<notin> set (map o_tracking_number (orders db))"
    and t2: "trackingNumber_of now rnd \<notin> set (map sh_tracking_number (shipments db))"
    by (simp_all add: can_commit_def)
  have c: "check_items db items 0 [] = Inr (amount_of ?ups, ?ups)"
    using check_items_ok [OF ok, of 0 "[]"] by simp
  have i1: "insertOrder ?row db = Inr ?db1"
    using usr t1 by (simp add: insertOrder_def new_order_row_def)
  have so: "select_order ?db1 ?oid = Some ?row"
    unfolding select_order_def using select_order_new [of ?row db]
    by (simp add: new_order_row_def)
  have su: "select_user ?db1 userId \<noteq> None"
    using usr by (simp add: select_user_def)
  have sp: "list_all (\<lambda>u. select_product ?db1 (pu_productId u) \<noteq> None) ?ups"
    using updates_of_product [of db items] by (simp add: select_product_def)
  have w: "write_updates ?oid userId ?ups ?db1 = (None, ?db2)"
    using so su sp by (intro write_updates_ok) simp_all
  have so2: "select_order ?db2 ?oid = Some ?row"
    using so by (simp add: select_order_def updates_written_def)
  have i3: "insertShipment (new_shipment now rnd db) ?db2 = Inr ?db3"
    using t2 so2 by (simp add: insertShipment_def new_shipment_def updates_written_def)
  have fin: "clearCart userId ?db3 = committed now rnd userId items shippingAddress db"
    by (simp add: clearCart_def committed_def updates_written_def)
  have row: "\<lparr> o_id = ?oid, o_user_id = userId, o_total_amount = amount_of ?ups,
                o_shipping_address = shippingAddress, o_status = ''pending'',
                o_tracking_number = ''TRK'' @ show_nat now @ show_nat rnd,
                o_fraud_risk = fraud_risk (order_fraud userId items shippingAddress db),
                o_fraud_reasons = json_quote (fraud_reasons (order_fraud userId items shippingAddress db)) \<rparr>
             = ?row"
    by (simp add: new_order_row_def trackingNumber_of_def)
  have ship: "\<lparr> sh_order_id = ?oid, sh_tracking_number = ''TRK'' @ show_nat now @ show_nat rnd,
                 sh_status = ''pending'', sh_current_location = ''Processing Center'' \<rparr>
              = new_shipment now rnd db"
    by (simp add: new_shipment_def trackingNumber_of_def)
  show ?thesis
    unfolding order_transaction_def Let_def c
    by (simp add: detectFraudRisk_order row ship i1 w i3 fin
        transaction_result_of_def trackingNumber_of_def del: append.simps)
qed

lemma order_transaction_checked:
  assumes "lines_ok db items"
  shows "order_transaction now rnd userId items shippingAddress db =
     (case insertOrder (new_order_row now rnd userId items shippingAddress db) db of
        Inl e \<Rightarrow> (Inl e, db)
      | Inr db1 \<Rightarrow>
          (case write_updates (next_order_id db) userId (updates_of db items) db1 of
             (Some e, db2) \<Rightarrow> (Inl e, db2)
           | (None, db2) \<Rightarrow>
               (case insertShipment (new_shipment now rnd db) db2 of
                  Inl e \<Rightarrow> (Inl e, db2)
                | Inr db3 \<Rightarrow>
                    (Inr (transaction_result_of now rnd userId items shippingAddress db),
                     clearCart userId db3))))"
proof -
  let ?ups = "updates_of db items"
  have c: "check_items db items 0 [] = Inr (amount_of ?ups, ?ups)"
    using check_items_ok [OF assms, of 0 "[]"] by simp
  show ?thesis
    unfolding order_transaction_def Let_def c new_order_row_def
      new_shipment_def transaction_result_of_def trackingNumber_of_def
    by (simp add: detectFraudRisk_order)
qed

lemma order_transaction_Inr:
  assumes "order_transaction now rnd userId items shippingAddress db = (Inr r, db')"
  shows "can_commit now rnd userId items db"
proof -
  let ?ups = "updates_of db items"
  let ?row = "new_order_row now rnd userId items shippingAddress db"
  let ?db1 = "db\<lparr>orders := orders db @ [?row], orders_seq := next_order_id db\<rparr>"
  let ?db2 = "updates_written (next_order_id db) userId ?ups ?db1"
  from assms obtain x where c0: "check_items db items 0 [] = Inr x"
    by (cases "check_items db items 0 []") (simp_all add: order_transaction_def)
  then have ok: "lines_ok db items" by (rule check_items_Inr)
  note ot = order_transaction_checked [OF ok, of now rnd userId shippingAddress]
  from assms ot obtain db1 where i1: "insertOrder ?row db = Inr db1"
    by (cases "insertOrder ?row db") simp_all
  then have t1: "trackingNumber_of now rnd \<notin> set (map o_tracking_number (orders db))"
    and usr: "select_user db userId \<noteq> None" and db1: "db1 = ?db1"
    by (auto simp: insertOrder_def new_order_row_def split: if_splits)
  have so: "select_order ?db1 (next_order_id db) = Some ?row"
    unfolding select_order_def using select_order_new [of ?row db]
    by (simp add: new_order_row_def)
  have su: "select_user ?db1 userId \<noteq> None"
    using usr by (simp add: select_user_def)
  have sp: "list_all (\<lambda>u. select_product ?db1 (pu_productId u) \<noteq> None) ?ups"
    using updates_of_product [of db items] by (simp add: select_product_def)
  have w: "write_updates (next_order_id db) userId ?ups ?db1 = (None, ?db2)"
    using so su sp by (intro write_updates_ok) simp_all
  from assms ot i1 db1 w obtain db3 where "insertShipment (new_shipment now rnd db) ?db2 = Inr db3"
    by (cases "insertShipment (new_shipment now rnd db) ?db2") simp_all
  then have t2: "trackingNumber_of now rnd \<notin> set (map sh_tracking_number (shipments db))"
    by (auto simp: insertShipment_def new_shipment_def updates_written_def split: if_splits)
  from ok usr t1 t2 show ?thesis by (simp add: can_commit_def)
qed

section \<open>The handler\<close>

lemma emit_inventory_changed_ok:
  "list_all (\<lambda>u. select_product db (pu_productId u) \<noteq> None) ups \<Longrightarrow>
   emit_inventory_changed db ups =
     (None, map (\<lambda>u. Inventory_changed (select_product db (pu_productId u)) None) ups)"
  by (induction ups) auto

lemma select_product_committed_None:
  "select_product (committed now rnd userId items shippingAddress db) k = None
     \<longleftrightarrow> select_product db k = None"
  by (simp add: select_product_def committed_def find_apply_stock_None)

lemma select_order_committed:
  "select_order (committed now rnd userId items shippingAddress db) (next_order_id db)
     = Some (new_order_row now rnd userId items shippingAddress db)"
  unfolding select_order_def
  using select_order_new [of "new_order_row now rnd userId items shippingAddress db" db]
  by (simp add: committed_def new_order_row_def)

lemma select_user_committed:
  "select_user (committed now rnd userId items shippingAddress db) k = select_user db k"
  by (simp add: select_user_def committed_def)

lemma placeOrder_invalid:
  "\<not> validate_createOrder items shippingAddress \<Longrightarrow>
   placeOrder io now rnd userId items shippingAddress db = (Inl ValidationError, db, [])"
  by (simp add: placeOrder_def)

lemma placeOrder_rejected:
  assumes "validate_createOrder items shippingAddress" and "\<not> can_commit now rnd userId items db"
  shows "\<exists>e. placeOrder io now rnd userId items shippingAddress db = (Inl e, db, [])"
proof -
  obtain x db' where b: "order_transaction now rnd userId items shippingAddress db = (x, db')"
    by (cases "order_transaction now rnd userId items shippingAddress db")
  with assms(2) obtain e where "x = Inl e"
    by (cases x) (auto dest: order_transaction_Inr)
  with b assms(1) show ?thesis
    by (simp add: placeOrder_def db_transaction_def validate_createOrder_def)
qed

lemma placeOrder_committed:
  assumes "validate_createOrder items shippingAddress" and "can_commit now rnd userId items db"
  shows "placeOrder io now rnd userId items shippingAddress db =
           (Inr (response_of now rnd userId items shippingAddress db),
            committed now rnd userId items shippingAddress db,
            if io then events_of now rnd userId items shippingAddress db else [])"
proof -
  let ?db' = "committed now rnd userId items shippingAddress db"
  let ?row = "new_order_row now rnd userId items shippingAddress db"
  from assms(2) obtain u where u: "select_user db userId = Some u"
    by (auto simp: can_commit_def)
  have t: "db_transaction (order_transaction now rnd userId items shippingAddress) db
             = (Inr (transaction_result_of now rnd userId items shippingAddress db), ?db')"
    by (simp add: db_transaction_def order_transaction_commits [OF assms(2)])
  have su: "select_user ?db' (o_user_id ?row) = Some u"
    using u by (simp add: select_user_committed new_order_row_def)
  have "list_all (\<lambda>u. select_product ?db' (pu_productId u) \<noteq> None) (updates_of db items)"
    using updates_of_product [of db items] by (simp only: select_product_committed_None)
  then have em: "emit_inventory_changed ?db' (updates_of db items) =
     (None, map (\<lambda>u. Inventory_changed (select_product ?db' (pu_productId u)) None) (updates_of db items))"
    by (rule emit_inventory_changed_ok)
  from assms(1) have ne: "items \<noteq> []" by (simp add: validate_createOrder_def)
  show ?thesis
    unfolding placeOrder_def
    using assms(1) ne
    by (simp add: t transaction_result_of_def select_order_committed su em u
        response_of_def events_of_def)
qed

lemma placeOrder_Inl:
  assumes "placeOrder io now rnd userId items shippingAddress db = (Inl e, db', evs)"
  shows "db' = db \<and> evs = []"
proof (cases "validate_createOrder items shippingAddress")
  case False
  with assms show ?thesis by (simp add: placeOrder_invalid)
next
  case True
  show ?thesis
  proof (cases "can_commit now rnd userId items db")
    case False
    with True assms placeOrder_rejected [of items shippingAddress now rnd userId db io]
    show ?thesis by auto
  next
    case c: True
    with True assms show ?thesis by (simp add: placeOrder_committed)
  qed
qed

lemma placeOrder_Inr:
  assumes "placeOrder io now rnd userId items shippingAddress db = (Inr resp, db', evs)"
  shows "validate_createOrder items shippingAddress \<and> can_commit now rnd userId items db
         \<and> resp = response_of now rnd userId items shippingAddress db
         \<and> db' = committed now rnd userId items shippingAddress db
         \<and> evs = (if io then events_of now rnd userId items shippingAddress db else [])"
proof -
  have v: "validate_createOrder items shippingAddress"
  proof (rule ccontr)
    assume "\<not> validate_createOrder items shippingAddress"
    with assms show False by (simp add: placeOrder_invalid)
  qed
  have c: "can_commit now rnd userId items db"
    using assms v placeOrder_rejected [of items shippingAddress now rnd userId db io] by auto
  from assms show ?thesis
    by (simp add: v c placeOrder_committed [OF v c])
qed

lemmas sample_eval =
  sample_db_def sample_cart_db_def sample_users_def sample_products_def
  select_product_def select_user_def select_order_def

section \<open>Properties of placing an order\<close>

text \<open>
  C1. Whenever placing an order fails, for whatever reason (the request is rejected by
  the schema, a product is not found, a line asks for more than the stock, or a
  statement of the transaction violates a constraint), the database after the request
  is the database before it: no stock is changed, no row of the transaction log, of the
  orders, of the order items or of the shipments is written, the cart of the caller is
  as it was, and no event is emitted.
\<close>

theorem failed_order_changes_nothing:
  assumes "placeOrder io now rnd userId items shippingAddress db = (Inl e, db', evs)"
  shows "db' = db \<and> evs = [] \<and> getLines db' userId = getLines db userId"
  using placeOrder_Inl [OF assms] by simp

theorem failed_order_changes_nothing_witness:
  "placeOrder True 1700000000000 4711 2
      [\<lparr> productId = 2, quantity = 1 \<rparr>, \<lparr> productId = 99, quantity = 1 \<rparr>] ''1 Main St'' sample_cart_db
     = (Inl (ProductNotFound 99), sample_cart_db, [])
   \<and> placeOrder True 1700000000000 4711 2
      [\<lparr> productId = 2, quantity = 1 \<rparr>, \<lparr> productId = 7, quantity = 31 \<rparr>] ''1 Main St'' sample_cart_db
     = (Inl (InsufficientStock ''Lift-Up Standing Desk'' 30 31), sample_cart_db, [])"
proof -
  have a: "\<exists>db' evs. placeOrder True 1700000000000 4711 2
      [\<lparr> productId = 2, quantity = 1 \<rparr>, \<lparr> productId = 99, quantity = 1 \<rparr>] ''1 Main St'' sample_cart_db
     = (Inl (ProductNotFound 99), db', evs)"
    by (simp add: placeOrder_def validate_createOrder_def db_transaction_def
        order_transaction_def sample_eval)
  have b: "\<exists>db' evs. placeOrder True 1700000000000 4711 2
      [\<lparr> productId = 2, quantity = 1 \<rparr>, \<lparr> productId = 7, quantity = 31 \<rparr>] ''1 Main St'' sample_cart_db
     = (Inl (InsufficientStock ''Lift-Up Standing Desk'' 30 31), db', evs)"
    by (simp add: placeOrder_def validate_createOrder_def db_transaction_def
        order_transaction_def sample_eval)
  from a b show ?thesis
    using failed_order_changes_nothing by blast
qed

lemma line_update_ok:
  "select_product db (productId item) = Some p \<Longrightarrow>
   line_update db item =
     Some \<lparr> pu_productId = productId item, pu_productName = p_name p,
            pu_quantity = quantity item, pu_price = p_price p,
            pu_previousStock = p_stock_quantity p,
            pu_newStock = p_stock_quantity p - quantity item \<rparr>"
  by (simp add: line_update_def select_product_p_id)

lemma updates_of_lines:
  "lines_ok db items \<Longrightarrow>
   map pu_productId (updates_of db items) = map productId items
   \<and> map pu_quantity (updates_of db items) = map quantity items
   \<and> length (updates_of db items) = length items"
proof (induction items)
  case Nil
  show ?case by simp
next
  case (Cons item items)
  from Cons.prems obtain p where p: "select_product db (productId item) = Some p"
    and rest: "lines_ok db items"
    by (auto simp: lines_ok_def split: option.splits)
  from Cons.IH [OF rest] show ?case
    by (simp add: updates_of_Cons line_update_ok [OF p])
qed

lemma event_names_of:
  "map event_name (events_of now rnd userId items shippingAddress db) =
     ''order_created'' # replicate (length (updates_of db items)) ''inventory_changed''
       @ [''cart_updated'']"
  by (simp add: events_of_def comp_def map_replicate_const)

lemma events_of_lines:
  assumes "lines_ok db items"
  shows "\<exists>ob. events_of now rnd userId items shippingAddress db =
           Order_created ob
           # map (\<lambda>item. Inventory_changed
                   (select_product (committed now rnd userId items shippingAddress db) (productId item))
                   None) items
           @ [Cart_updated userId]"
proof -
  let ?db' = "committed now rnd userId items shippingAddress db"
  have "map (\<lambda>u. Inventory_changed (select_product ?db' (pu_productId u)) None) (updates_of db items)
        = map (\<lambda>k. Inventory_changed (select_product ?db' k) None) (map pu_productId (updates_of db items))"
    by (simp add: comp_def)
  also have "\<dots> = map (\<lambda>item. Inventory_changed (select_product ?db' (productId item)) None) items"
    using updates_of_lines [OF assms] by (simp add: comp_def)
  finally show ?thesis
    by (simp add: events_of_def)
qed

lemma sample_can_commit:
  "lines_ok sample_cart_db items \<Longrightarrow> can_commit now rnd 2 items sample_cart_db"
  by (simp add: can_commit_def sample_eval)

text \<open>
  C4 (amended). When an order is placed and \<open>req.io\<close> is set, the events are emitted in
  this order: first the single \<open>order_created\<close>, then one \<open>inventory_changed\<close> for
  every line of the order, in the order of the lines and each with the product row as
  it is after the commit, then the single \<open>cart_updated\<close> for the user. Without
  \<open>req.io\<close> nothing is emitted.
\<close>

theorem order_created_is_emitted_first:
  assumes "placeOrder io now rnd userId items shippingAddress db = (Inr resp, db', evs)"
  shows "(if io
          then \<exists>ob. evs = Order_created ob
                        # map (\<lambda>item. Inventory_changed (select_product db' (productId item)) None) items
                        @ [Cart_updated userId]
          else evs = [])
         \<and> map event_name evs =
             (if io
              then ''order_created'' # replicate (length items) ''inventory_changed'' @ [''cart_updated'']
              else [])"
proof -
  note r = placeOrder_Inr [OF assms]
  from r have ok: "lines_ok db items" by (simp add: can_commit_def)
  from r have db': "db' = committed now rnd userId items shippingAddress db" by simp
  from r have evs: "evs = (if io then events_of now rnd userId items shippingAddress db else [])"
    by simp
  show ?thesis
    using events_of_lines [OF ok, of now rnd userId shippingAddress]
      event_names_of [of now rnd userId items shippingAddress db] updates_of_lines [OF ok]
    by (simp add: evs db')
qed

theorem order_created_is_emitted_first_witness:
  "map event_name (snd (snd (placeOrder True 1700000000000 4711 2
      [\<lparr> productId = 2, quantity = 1 \<rparr>, \<lparr> productId = 5, quantity = 2 \<rparr>] ''1 Main St'' sample_cart_db)))
   = [''order_created'', ''inventory_changed'', ''inventory_changed'', ''cart_updated'']"
proof -
  let ?items = "[\<lparr> productId = 2, quantity = 1 \<rparr>, \<lparr> productId = 5, quantity = 2 \<rparr>]"
  have v: "validate_createOrder ?items ''1 Main St''"
    by (simp add: validate_createOrder_def)
  have c: "can_commit 1700000000000 4711 2 ?items sample_cart_db"
    by (rule sample_can_commit) (simp add: lines_ok_def sample_eval)
  note p = placeOrder_committed [OF v c, of True]
  from order_created_is_emitted_first [OF p] show ?thesis
    by (simp add: p)
qed

text \<open>
  The order claimed for C4, every \<open>inventory_changed\<close> before \<open>order_created\<close>, is not
  the order of the code: for an order of two lines by John Doe on the sample data,
  \<open>order_created\<close> comes first.
\<close>

theorem inventory_changed_first_counterexample:
  "map event_name (snd (snd (placeOrder True 1700000000000 4711 2
      [\<lparr> productId = 2, quantity = 1 \<rparr>, \<lparr> productId = 5, quantity = 2 \<rparr>] ''1 Main St'' sample_cart_db)))
   = [''order_created'', ''inventory_changed'', ''inventory_changed'', ''cart_updated'']
   \<and> map event_name (snd (snd (placeOrder True 1700000000000 4711 2
      [\<lparr> productId = 2, quantity = 1 \<rparr>, \<lparr> productId = 5, quantity = 2 \<rparr>] ''1 Main St'' sample_cart_db)))
   \<noteq> [''inventory_changed'', ''inventory_changed'', ''order_created'', ''cart_updated'']"
proof -
  let ?items = "[\<lparr> productId = 2, quantity = 1 \<rparr>, \<lparr> productId = 5, quantity = 2 \<rparr>]"
  have v: "validate_createOrder ?items ''1 Main St''"
    by (simp add: validate_createOrder_def)
  have c: "can_commit 1700000000000 4711 2 ?items sample_cart_db"
    by (rule sample_can_commit) (simp add: lines_ok_def sample_eval)
  have u: "length (updates_of sample_cart_db ?items) = 2"
    using updates_of_lines [of sample_cart_db ?items] c by (simp add: can_commit_def)
  have rep: "\<And>x::string. replicate 2 x = [x, x]"
    by (simp add: numeral_2_eq_2)
  show ?thesis
    by (simp add: placeOrder_committed [OF v c] event_names_of u rep)
qed


lemma getLines_committed:
  "getLines (committed now rnd userId items shippingAddress db) userId = []"
  by (simp add: getLines_def committed_def)

text \<open>
  C3. After an order is placed, the cart of the user is empty; after a failed attempt
  it is what it was before the call.
\<close>

theorem cart_cleared_exactly_on_success:
  "(case placeOrder io now rnd userId items shippingAddress db of
      (Inr resp, db', evs) \<Rightarrow> getLines db' userId = []
    | (Inl e, db', evs) \<Rightarrow> getLines db' userId = getLines db userId)"
proof (cases "placeOrder io now rnd userId items shippingAddress db")
  case (fields res db' evs)
  show ?thesis
  proof (cases res)
    case (Inl e)
    with fields placeOrder_Inl [of io now rnd userId items shippingAddress db e db' evs]
    show ?thesis by simp
  next
    case (Inr resp)
    with fields placeOrder_Inr [of io now rnd userId items shippingAddress db resp db' evs]
    show ?thesis by (simp add: getLines_committed)
  qed
qed

theorem cart_cleared_exactly_on_success_witness:
  "getLines sample_cart_db 2 \<noteq> []
   \<and> getLines (fst (snd (placeOrder True 1700000000000 4711 2
        [\<lparr> productId = 2, quantity = 1 \<rparr>, \<lparr> productId = 5, quantity = 2 \<rparr>] ''1 Main St'' sample_cart_db))) 2 = []
   \<and> getLines (fst (snd (placeOrder True 1700000000000 4711 2
        [\<lparr> productId = 2, quantity = 1 \<rparr>, \<lparr> productId = 99, quantity = 2 \<rparr>] ''1 Main St'' sample_cart_db))) 2
      = getLines sample_cart_db 2"
proof -
  let ?items = "[\<lparr> productId = 2, quantity = 1 \<rparr>, \<lparr> productId = 5, quantity = 2 \<rparr>]"
  let ?bad = "[\<lparr> productId = 2, quantity = 1 \<rparr>, \<lparr> productId = 99, quantity = 2 \<rparr>]"
  have v: "validate_createOrder ?items ''1 Main St''"
    by (simp add: validate_createOrder_def)
  have c: "can_commit 1700000000000 4711 2 ?items sample_cart_db"
    by (rule sample_can_commit) (simp add: lines_ok_def sample_eval)
  note p = placeOrder_committed [OF v c, of True]
  have a: "getLines sample_cart_db 2 \<noteq> []"
    by (simp add: getLines_def sample_eval)
  have b: "\<exists>db' evs. placeOrder True 1700000000000 4711 2 ?bad ''1 Main St'' sample_cart_db
             = (Inl (ProductNotFound 99), db', evs)"
    by (simp add: placeOrder_def validate_createOrder_def db_transaction_def
        order_transaction_def sample_eval)
  from cart_cleared_exactly_on_success [where io = True and now = 1700000000000 and rnd = 4711
      and userId = 2 and items = ?items and shippingAddress = "''1 Main St''" and db = sample_cart_db]
  have s: "getLines (fst (snd (placeOrder True 1700000000000 4711 2 ?items ''1 Main St'' sample_cart_db))) 2 = []"
    by (simp add: p)
  from b cart_cleared_exactly_on_success [where io = True and now = 1700000000000 and rnd = 4711
      and userId = 2 and items = ?bad and shippingAddress = "''1 Main St''" and db = sample_cart_db]
  have f: "getLines (fst (snd (placeOrder True 1700000000000 4711 2 ?bad ''1 Main St'' sample_cart_db))) 2
             = getLines sample_cart_db 2"
    by auto
  from a s f show ?thesis by simp
qed

lemma placeOrder_fraud:
  assumes "placeOrder io now rnd userId items shippingAddress db = (Inr resp, db', evs)"
  shows "r_fraudRisk resp = fraud_risk (order_fraud userId items shippingAddress db)
       \<and> r_fraudReasons resp = JStr (fraud_reasons (order_fraud userId items shippingAddress db))
       \<and> r_totalAmount resp = amount_of (updates_of db items)
       \<and> select_order db' (r_orderId resp) = Some (new_order_row now rnd userId items shippingAddress db)"
  using placeOrder_Inr [OF assms] by (simp add: response_of_def select_order_committed)

lemma riskScore_reasons_request:
  "\<exists>s rs. riskScore_reasons \<lparr> total_amount = t, od_items = Some (map request_item items),
                                  od_shippingAddress = a \<rparr> h = Inr (s, rs)"
  by (simp add: riskScore_reasons_def Let_def)

lemma order_fraud_eq:
  assumes "riskScore_reasons
             \<lparr> total_amount = JNum (Num (amount_of (updates_of db items))),
               od_items = Some (map request_item items),
               od_shippingAddress = shippingAddress \<rparr> (Some (historyStmt db userId))
           = Inr (s, rs)"
  shows "order_fraud userId items shippingAddress db =
           \<lparr> fraud_risk = risk_band s, fraud_reasons = JSON_stringify_strings rs \<rparr>"
  using detectFraudRisk_Inr [OF assms] detectFraudRisk_order [of db items shippingAddress userId]
  by simp

text \<open>
  C6 (amended). The fraud evaluator returns its reasons as one string, the JSON text of
  the list of reason strings (and throws only where the computation of the reasons
  throws), and the response of a placed order carries that same string in
  \<open>fraudReasons\<close>: the JSON text of the reasons computed, without an exception, for the
  order's total amount, the items of the request and the user's history.
\<close>

theorem fraud_reasons_are_json_text:
  "map_sum id fraud_reasons (detectFraudRisk orderData userHistory) =
     map_sum id (\<lambda>(score, reasons). JSON_stringify_strings reasons)
       (riskScore_reasons orderData userHistory)
   \<and> (placeOrder io now rnd userId items shippingAddress db = (Inr resp, db', evs) \<longrightarrow>
        Inr (r_fraudReasons resp) =
          map_sum id (\<lambda>(score, reasons). JStr (JSON_stringify_strings reasons))
            (riskScore_reasons
               \<lparr> total_amount = JNum (Num (r_totalAmount resp)),
                 od_items = Some (map request_item items),
                 od_shippingAddress = shippingAddress \<rparr>
               (Some (historyStmt db userId))))"
proof (intro conjI impI)
  show "map_sum id fraud_reasons (detectFraudRisk orderData userHistory) =
     map_sum id (\<lambda>(score, reasons). JSON_stringify_strings reasons)
       (riskScore_reasons orderData userHistory)"
    by (cases "riskScore_reasons orderData userHistory") (auto simp: detectFraudRisk_def)
next
  assume p: "placeOrder io now rnd userId items shippingAddress db = (Inr resp, db', evs)"
  note f = placeOrder_fraud [OF p]
  from riskScore_reasons_request
         [where t = "JNum (Num (amount_of (updates_of db items)))" and items = items
            and a = shippingAddress and h = "Some (historyStmt db userId)"]
  obtain s rs where rr: "riskScore_reasons
             \<lparr> total_amount = JNum (Num (amount_of (updates_of db items))),
               od_items = Some (map request_item items),
               od_shippingAddress = shippingAddress \<rparr> (Some (historyStmt db userId))
           = Inr (s, rs)"
    by blast
  from order_fraud_eq [OF rr] f have a: "r_fraudReasons resp = JStr (JSON_stringify_strings rs)"
    by simp
  from f have b: "r_totalAmount resp = amount_of (updates_of db items)" by simp
  show "Inr (r_fraudReasons resp) =
          map_sum id (\<lambda>(score, reasons). JStr (JSON_stringify_strings reasons))
            (riskScore_reasons
               \<lparr> total_amount = JNum (Num (r_totalAmount resp)),
                 od_items = Some (map request_item items),
                 od_shippingAddress = shippingAddress \<rparr>
               (Some (historyStmt db userId)))"
    unfolding a b rr by simp
qed

lemma chair_order:
  "placeOrder True 1700000000000 4711 2 [\<lparr> productId = 3, quantity = 2 \<rparr>] ''1 Main St'' sample_db
     = (Inr (response_of 1700000000000 4711 2 [\<lparr> productId = 3, quantity = 2 \<rparr>] ''1 Main St'' sample_db),
        committed 1700000000000 4711 2 [\<lparr> productId = 3, quantity = 2 \<rparr>] ''1 Main St'' sample_db,
        events_of 1700000000000 4711 2 [\<lparr> productId = 3, quantity = 2 \<rparr>] ''1 Main St'' sample_db)"
proof -
  have v: "validate_createOrder [\<lparr> productId = 3, quantity = 2 \<rparr>] ''1 Main St''"
    by (simp add: validate_createOrder_def)
  have c: "can_commit 1700000000000 4711 2 [\<lparr> productId = 3, quantity = 2 \<rparr>] sample_db"
    by (simp add: can_commit_def lines_ok_def sample_eval)
  show ?thesis using placeOrder_committed [OF v c, of True] by simp
qed

lemma chair_updates:
  "updates_of sample_db [\<lparr> productId = 3, quantity = 2 \<rparr>] =
     [\<lparr> pu_productId = 3, pu_productName = ''Aeron Office Chair'', pu_quantity = 2,
        pu_price = 99999 / 100, pu_previousStock = 25, pu_newStock = 23 \<rparr>]"
  by (simp add: updates_of_def line_update_def sample_eval)

lemma chair_reasons:
  "riskScore_reasons
     \<lparr> total_amount = JNum (Num (199998 / 100)),
       od_items = Some (map request_item [\<lparr> productId = 3, quantity = 2 \<rparr>]),
       od_shippingAddress = ''1 Main St'' \<rparr>
     (Some (historyStmt sample_db 2))
   = Inr (90, [''High order value ($1999.98)'', ''Unusually large order for a first-time customer.''])"
  by (simp add: riskScore_reasons_def highValueItem_def request_item_def bulk_item_def
      historyStmt_def sample_db_def toFixed2_nonneg_def show_nat_eval)

lemma chair_amount: "amount_of (updates_of sample_db [\<lparr> productId = 3, quantity = 2 \<rparr>]) = 199998 / 100"
  by (simp add: amount_of_def chair_updates)

lemma chair_json:
  "JSON_stringify_strings
     [''High order value ($1999.98)'', ''Unusually large order for a first-time customer.'']
   = ''[\"High order value ($1999.98)\",\"Unusually large order for a first-time customer.\"]''"
  by (simp add: JSON_stringify_strings_def json_quote_def json_escape_def)

lemma chair_payload:
  "r_fraudReasons (response_of 1700000000000 4711 2 [\<lparr> productId = 3, quantity = 2 \<rparr>] ''1 Main St'' sample_db)
     = JStr ''[\"High order value ($1999.98)\",\"Unusually large order for a first-time customer.\"]''"
proof -
  have "riskScore_reasons
     \<lparr> total_amount = JNum (Num (amount_of (updates_of sample_db [\<lparr> productId = 3, quantity = 2 \<rparr>]))),
       od_items = Some (map request_item [\<lparr> productId = 3, quantity = 2 \<rparr>]),
       od_shippingAddress = ''1 Main St'' \<rparr>
     (Some (historyStmt sample_db 2))
   = Inr (90, [''High order value ($1999.98)'', ''Unusually large order for a first-time customer.''])"
    unfolding chair_amount by (rule chair_reasons)
  note e = order_fraud_eq [OF this]
  show ?thesis
    unfolding response_of_def e
    by (simp only: order_response.simps fraud_result.simps chair_json)
qed

theorem fraud_reasons_are_json_text_witness:
  "r_fraudReasons (response_of 1700000000000 4711 2 [\<lparr> productId = 3, quantity = 2 \<rparr>] ''1 Main St'' sample_db)
     = JStr ''[\"High order value ($1999.98)\",\"Unusually large order for a first-time customer.\"]''"
proof -
  let ?items = "[\<lparr> productId = 3, quantity = 2 \<rparr>]"
  let ?resp = "response_of 1700000000000 4711 2 ?items ''1 Main St'' sample_db"
  have a: "r_totalAmount ?resp = 199998 / 100"
    unfolding response_of_def by (simp only: order_response.simps chair_amount)
  from fraud_reasons_are_json_text [where io = True and now = 1700000000000 and rnd = 4711
      and userId = 2 and items = ?items and shippingAddress = "''1 Main St''" and db = sample_db
      and resp = ?resp] chair_order
  have "Inr (r_fraudReasons ?resp) =
          map_sum id (\<lambda>(score, reasons). JStr (JSON_stringify_strings reasons))
            (riskScore_reasons
               \<lparr> total_amount = JNum (Num (r_totalAmount ?resp)),
                 od_items = Some (map request_item ?items),
                 od_shippingAddress = ''1 Main St'' \<rparr>
               (Some (historyStmt sample_db 2)))"
    by blast
  then show ?thesis
    by (simp only: a chair_reasons map_sum.simps prod.case chair_json sum.inject)
qed

text \<open>
  The claim of C6 says a list of strings; the evaluator's list of two reasons reaches
  the response as one string, its JSON text.
\<close>

theorem fraud_reasons_list_counterexample:
  "riskScore_reasons
          \<lparr> total_amount = JNum (Num (199998 / 100)),
            od_items = Some (map request_item [\<lparr> productId = 3, quantity = 2 \<rparr>]),
            od_shippingAddress = ''1 Main St'' \<rparr>
          (Some (historyStmt sample_db 2))
     = Inr (90, [''High order value ($1999.98)'', ''Unusually large order for a first-time customer.''])
   \<and> map_sum id r_fraudReasons
         (fst (placeOrder True 1700000000000 4711 2 [\<lparr> productId = 3, quantity = 2 \<rparr>] ''1 Main St'' sample_db))
       = Inr (JStr ''[\"High order value ($1999.98)\",\"Unusually large order for a first-time customer.\"]'')
   \<and> map_sum id r_fraudReasons
         (fst (placeOrder True 1700000000000 4711 2 [\<lparr> productId = 3, quantity = 2 \<rparr>] ''1 Main St'' sample_db))
       \<noteq> Inr (JArr [JStr ''High order value ($1999.98)'',
                      JStr ''Unusually large order for a first-time customer.''])"
proof -
  have p: "map_sum id r_fraudReasons
         (fst (placeOrder True 1700000000000 4711 2 [\<lparr> productId = 3, quantity = 2 \<rparr>] ''1 Main St'' sample_db))
       = Inr (JStr ''[\"High order value ($1999.98)\",\"Unusually large order for a first-time customer.\"]'')"
    by (simp only: chair_order fst_conv map_sum.simps chair_payload)
  from chair_reasons p show ?thesis by simp
qed

lemma toFixed2_1500: "toFixed2_nonneg 1500 = ''1500.00''"
  by (simp add: toFixed2_nonneg_def show_nat_eval)

lemma reasons_1500_json:
  "JSON_stringify_strings
     [''High order value ($1500.00)'', ''Unusually large order for a first-time customer.'']
   = ''[\"High order value ($1500.00)\",\"Unusually large order for a first-time customer.\"]''"
  by (simp add: JSON_stringify_strings_def json_quote_def json_escape_def)

lemma first_order_1500:
  assumes "total_orders h = 0"
  shows "riskScore_reasons
           \<lparr> total_amount = JNum (Num 1500), od_items = Some (map request_item items),
             od_shippingAddress = a \<rparr> (Some h)
         = Inr (90, [''High order value ($1500.00)'', ''Unusually large order for a first-time customer.''])"
  using assms by (simp add: riskScore_reasons_def toFixed2_1500)

text \<open>
  The history query counts the rows of \<open>orders\<close> of the user, and of no other user: its
  count is the number of those rows, so it is 0 exactly when the user has no order.
\<close>

lemma historyStmt_counts_own_orders:
  "total_orders (historyStmt db userId) = length (filter (\<lambda>r. o_user_id r = userId) (orders db))"
  by (simp add: historyStmt_def Let_def)

lemma historyStmt_no_earlier_order:
  "total_orders (historyStmt db userId) = 0 \<longleftrightarrow> no_earlier_order db userId"
  by (simp add: historyStmt_counts_own_orders no_earlier_order_def list_all_iff filter_empty_conv)

text \<open>
  C7. A user who has no row in \<open>orders\<close>, whatever the orders of the other users, places
  an order of one line, quantity 1, for a product whose price is 1500. The total amount
  is 1500; the evaluator's score for the order is 90, that is 40 for the high value and
  50 for the large first order; the risk in the response and in the order row is
  \<open>high\<close>; and the reasons, in the response and (encoded once more) in the order row,
  are the JSON text of the two reasons.
\<close>

theorem first_order_of_1500_is_high_risk:
  assumes "placeOrder io now rnd userId [\<lparr> productId = pid, quantity = 1 \<rparr>] shippingAddress db
             = (Inr resp, db', evs)"
    and "select_product db pid = Some p" and "p_price p = 1500"
    and "no_earlier_order db userId"
  shows "r_totalAmount resp = 1500
       \<and> riskScore_reasons
            \<lparr> total_amount = JNum (Num (r_totalAmount resp)),
              od_items = Some (map request_item [\<lparr> productId = pid, quantity = 1 \<rparr>]),
              od_shippingAddress = shippingAddress \<rparr>
            (Some (historyStmt db userId))
          = Inr (90, [''High order value ($1500.00)'', ''Unusually large order for a first-time customer.''])
       \<and> r_fraudRisk resp = ''high''
       \<and> r_fraudReasons resp =
           JStr ''[\"High order value ($1500.00)\",\"Unusually large order for a first-time customer.\"]''
       \<and> map_option o_fraud_risk (select_order db' (r_orderId resp)) = Some ''high''
       \<and> map_option o_fraud_reasons (select_order db' (r_orderId resp)) =
           Some (json_quote ''[\"High order value ($1500.00)\",\"Unusually large order for a first-time customer.\"]'')"
proof -
  let ?items = "[\<lparr> productId = pid, quantity = 1 \<rparr>]"
  note f = placeOrder_fraud [OF assms(1)]
  have am: "amount_of (updates_of db ?items) = 1500"
    using assms(2,3) by (simp add: amount_of_def updates_of_Cons line_update_def)
  from f am have total: "r_totalAmount resp = 1500" by simp
  from assms(4) have h0: "total_orders (historyStmt db userId) = 0"
    by (simp add: historyStmt_no_earlier_order)
  have rs: "riskScore_reasons
            \<lparr> total_amount = JNum (Num 1500), od_items = Some (map request_item ?items),
              od_shippingAddress = shippingAddress \<rparr>
            (Some (historyStmt db userId))
          = Inr (90, [''High order value ($1500.00)'', ''Unusually large order for a first-time customer.''])"
    using h0 by (rule first_order_1500)
  have "riskScore_reasons
            \<lparr> total_amount = JNum (Num (amount_of (updates_of db ?items))),
              od_items = Some (map request_item ?items),
              od_shippingAddress = shippingAddress \<rparr>
            (Some (historyStmt db userId))
          = Inr (90, [''High order value ($1500.00)'', ''Unusually large order for a first-time customer.''])"
    unfolding am by (rule rs)
  note of1 = order_fraud_eq [OF this]
  have risk: "fraud_risk (order_fraud userId ?items shippingAddress db) = ''high''"
    unfolding of1 by (simp add: risk_band_def)
  have reasons: "fraud_reasons (order_fraud userId ?items shippingAddress db) =
           ''[\"High order value ($1500.00)\",\"Unusually large order for a first-time customer.\"]''"
    unfolding of1 by (simp only: fraud_result.simps reasons_1500_json)
  have row: "select_order db' (r_orderId resp) = Some (new_order_row now rnd userId ?items shippingAddress db)"
    using f by simp
  have c1: "r_fraudRisk resp = ''high''" using f risk by simp
  have c2: "r_fraudReasons resp =
           JStr ''[\"High order value ($1500.00)\",\"Unusually large order for a first-time customer.\"]''"
    using f reasons by simp
  have c3: "map_option o_fraud_risk (select_order db' (r_orderId resp)) = Some ''high''"
    unfolding row by (simp add: new_order_row_def risk)
  have c4: "map_option o_fraud_reasons (select_order db' (r_orderId resp)) =
           Some (json_quote ''[\"High order value ($1500.00)\",\"Unusually large order for a first-time customer.\"]'')"
    unfolding row by (simp only: option.map new_order_row_def order_row.simps reasons)
  from total rs c1 c2 c3 c4 show ?thesis by (simp only: simp_thms)
qed

theorem first_order_of_1500_is_high_risk_witness:
  "select_product busy_rack_db 16 =
     Some \<lparr> p_id = 16, p_name = ''Rack Server'', p_price = 1500, p_stock_quantity = 3, p_sku = ''ELEC-SV-01'' \<rparr>
   \<and> no_earlier_order busy_rack_db 2
   \<and> map o_user_id (orders busy_rack_db) = [3]
   \<and> map_sum id (\<lambda>r. (r_totalAmount r, r_fraudRisk r, r_fraudReasons r))
        (fst (placeOrder True 1700000000000 4711 2 [\<lparr> productId = 16, quantity = 1 \<rparr>] ''1 Main St'' busy_rack_db))
      = Inr (1500, ''high'',
             JStr ''[\"High order value ($1500.00)\",\"Unusually large order for a first-time customer.\"]'')"
proof -
  let ?items = "[\<lparr> productId = 16, quantity = 1 \<rparr>]"
  let ?p = "\<lparr> p_id = 16, p_name = ''Rack Server'', p_price = 1500, p_stock_quantity = 3, p_sku = ''ELEC-SV-01'' \<rparr>"
  have v: "validate_createOrder ?items ''1 Main St''"
    by (simp add: validate_createOrder_def)
  have sp: "select_product busy_rack_db 16 = Some ?p"
    by (simp add: busy_rack_db_def rack_db_def sample_eval)
  have h: "no_earlier_order busy_rack_db 2"
    by (simp add: no_earlier_order_def busy_rack_db_def)
  have o: "map o_user_id (orders busy_rack_db) = [3]"
    by (simp add: busy_rack_db_def)
  have t: "trackingNumber_of 1700000000000 4711 = ''TRK17000000000004711''"
    by (simp add: trackingNumber_of_def show_nat_eval)
  have c: "can_commit 1700000000000 4711 2 ?items busy_rack_db"
    unfolding can_commit_def t
    by (simp add: lines_ok_def busy_rack_db_def rack_db_def sample_eval)
  note p = placeOrder_committed [OF v c, of True]
  have pr: "p_price ?p = 1500" by simp
  note t = first_order_of_1500_is_high_risk [OF p sp pr h]
  have "map_sum id (\<lambda>r. (r_totalAmount r, r_fraudRisk r, r_fraudReasons r))
        (fst (placeOrder True 1700000000000 4711 2 ?items ''1 Main St'' busy_rack_db))
      = Inr (1500, ''high'',
             JStr ''[\"High order value ($1500.00)\",\"Unusually large order for a first-time customer.\"]'')"
    unfolding p using t by (simp only: fst_conv map_sum.simps id_apply)
  with sp h o show ?thesis by (simp only: simp_thms)
qed

lemma desk_updates:
  "updates_of returning_db [\<lparr> productId = 7, quantity = 4 \<rparr>] =
     [\<lparr> pu_productId = 7, pu_productName = ''Lift-Up Standing Desk'', pu_quantity = 4,
        pu_price = 49999 / 100, pu_previousStock = 30, pu_newStock = 26 \<rparr>]"
  by (simp add: updates_of_def line_update_def returning_db_def sample_eval)

lemma desk_amount: "amount_of (updates_of returning_db [\<lparr> productId = 7, quantity = 4 \<rparr>]) = 199996 / 100"
  by (simp add: amount_of_def desk_updates)

lemma desk_history:
  "historyStmt returning_db 2 = \<lparr> total_orders = 1, total_spent = Some (4999 / 100) \<rparr>"
  by (simp add: historyStmt_def returning_db_def sample_db_def)

lemma desk_reasons:
  "riskScore_reasons
     \<lparr> total_amount = JNum (Num (199996 / 100)),
       od_items = Some (map request_item [\<lparr> productId = 7, quantity = 4 \<rparr>]),
       od_shippingAddress = ''1 Main St'' \<rparr>
     (Some (historyStmt returning_db 2))
   = Inr (40, [''High order value ($1999.96)''])"
  by (simp add: riskScore_reasons_def highValueItem_def request_item_def bulk_item_def desk_history
      toFixed2_nonneg_def show_nat_eval)

lemma desk_json:
  "JSON_stringify_strings [''High order value ($1999.96)''] = ''[\"High order value ($1999.96)\"]''"
  by (simp add: JSON_stringify_strings_def json_quote_def json_escape_def)

lemma desk_order:
  "placeOrder True 1700000000000 4711 2 [\<lparr> productId = 7, quantity = 4 \<rparr>] ''1 Main St'' returning_db
     = (Inr (response_of 1700000000000 4711 2 [\<lparr> productId = 7, quantity = 4 \<rparr>] ''1 Main St'' returning_db),
        committed 1700000000000 4711 2 [\<lparr> productId = 7, quantity = 4 \<rparr>] ''1 Main St'' returning_db,
        events_of 1700000000000 4711 2 [\<lparr> productId = 7, quantity = 4 \<rparr>] ''1 Main St'' returning_db)"
proof -
  have v: "validate_createOrder [\<lparr> productId = 7, quantity = 4 \<rparr>] ''1 Main St''"
    by (simp add: validate_createOrder_def)
  have t: "trackingNumber_of 1700000000000 4711 = ''TRK17000000000004711''"
    by (simp add: trackingNumber_of_def show_nat_eval)
  have c: "can_commit 1700000000000 4711 2 [\<lparr> productId = 7, quantity = 4 \<rparr>] returning_db"
    unfolding can_commit_def t
    by (simp add: lines_ok_def returning_db_def sample_eval)
  show ?thesis using placeOrder_committed [OF v c, of True] by simp
qed

text \<open>
  C5. The bulk rule of the evaluator reads \<open>price\<close> and \<open>name\<close> of an item, and the
  handler passes it the items of the request, which have neither: for a placed order
  the rule finds no item (lemma \<open>highValueItem_request\<close>). John Doe, with one earlier
  order, orders 4 standing desks at 499.99 each: the order is rated \<open>medium\<close> with the
  reason of the high value alone, neither the 30 points nor a reason naming the desk.
  The last lemma shows the evaluator on the same order with price and name given:
  70 points, \<open>high\<close>, and the reason naming the desk.
\<close>

theorem bulk_order_is_not_flagged:
  "p_price \<lparr> p_id = 7, p_name = ''Lift-Up Standing Desk'', p_price = 49999 / 100,
             p_stock_quantity = 30, p_sku = ''FURN-DK-01'' \<rparr> > 300
   \<and> select_product returning_db 7 =
       Some \<lparr> p_id = 7, p_name = ''Lift-Up Standing Desk'', p_price = 49999 / 100,
              p_stock_quantity = 30, p_sku = ''FURN-DK-01'' \<rparr>
   \<and> map_sum id (\<lambda>r. (r_totalAmount r, r_fraudRisk r, r_fraudReasons r))
        (fst (placeOrder True 1700000000000 4711 2 [\<lparr> productId = 7, quantity = 4 \<rparr>] ''1 Main St'' returning_db))
      = Inr (199996 / 100, ''medium'', JStr ''[\"High order value ($1999.96)\"]'')"
proof -
  let ?items = "[\<lparr> productId = 7, quantity = 4 \<rparr>]"
  have "riskScore_reasons
     \<lparr> total_amount = JNum (Num (amount_of (updates_of returning_db ?items))),
       od_items = Some (map request_item ?items),
       od_shippingAddress = ''1 Main St'' \<rparr>
     (Some (historyStmt returning_db 2))
   = Inr (40, [''High order value ($1999.96)''])"
    unfolding desk_amount by (rule desk_reasons)
  note of1 = order_fraud_eq [OF this]
  have risk: "fraud_risk (order_fraud 2 ?items ''1 Main St'' returning_db) = ''medium''"
    unfolding of1 by (simp add: risk_band_def)
  have reasons: "fraud_reasons (order_fraud 2 ?items ''1 Main St'' returning_db)
                   = ''[\"High order value ($1999.96)\"]''"
    unfolding of1 by (simp only: fraud_result.simps desk_json)
  have r: "map_sum id (\<lambda>r. (r_totalAmount r, r_fraudRisk r, r_fraudReasons r))
        (fst (placeOrder True 1700000000000 4711 2 ?items ''1 Main St'' returning_db))
      = Inr (199996 / 100, ''medium'', JStr ''[\"High order value ($1999.96)\"]'')"
    unfolding desk_order response_of_def
    by (simp only: fst_conv map_sum.simps id_apply order_response.simps desk_amount risk reasons)
  have s: "select_product returning_db 7 =
       Some \<lparr> p_id = 7, p_name = ''Lift-Up Standing Desk'', p_price = 49999 / 100,
              p_stock_quantity = 30, p_sku = ''FURN-DK-01'' \<rparr>"
    by (simp add: returning_db_def sample_eval)
  from r s show ?thesis by simp
qed

lemma bulk_rule_needs_price_and_name:
  "detectFraudRisk
     \<lparr> total_amount = JNum (Num (199996 / 100)),
       od_items = Some [Some \<lparr> fi_price = Some (Num (49999 / 100)), fi_quantity = Some (Num 4),
                               fi_name = Some ''Lift-Up Standing Desk'' \<rparr>],
       od_shippingAddress = ''1 Main St'' \<rparr>
     (Some \<lparr> total_orders = 1, total_spent = Some (4999 / 100) \<rparr>)
   = Inr \<lparr> fraud_risk = ''high'',
       fraud_reasons = ''[\"High order value ($1999.96)\",\"Bulk order of high-value item: Lift-Up Standing Desk\"]'' \<rparr>"
  by (simp add: detectFraudRisk_def riskScore_reasons_def highValueItem_def bulk_item_def
      risk_band_def toFixed2_nonneg_def show_nat_eval JSON_stringify_strings_def json_quote_def
      json_escape_def)

section \<open>The stock after a committed order\<close>

lemma map_option_find_cong:
  "(\<And>x. P x \<Longrightarrow> f x = g x) \<Longrightarrow> map_option f (find P xs) = map_option g (find P xs)"
  by (induction xs) auto

lemma apply_stock_snoc: "apply_stock (ups @ [u]) ps = map (set_stock u) (apply_stock ups ps)"
  by (simp add: apply_stock_def)

lemma find_apply_stock:
  "find (\<lambda>p. p_id p = k) (apply_stock ups ps) =
     map_option (\<lambda>p. case find (\<lambda>u. pu_productId u = k) (rev ups) of
                        None \<Rightarrow> p
                      | Some u \<Rightarrow> p\<lparr>p_stock_quantity := pu_newStock u\<rparr>)
                (find (\<lambda>p. p_id p = k) ps)"
proof (induction ups rule: rev_induct)
  case Nil
  show ?case by (simp add: apply_stock_def option.map_ident)
next
  case (snoc u ups)
  let ?g = "\<lambda>p::product. case find (\<lambda>u. pu_productId u = k) (rev ups) of
                        None \<Rightarrow> p
                      | Some u \<Rightarrow> p\<lparr>p_stock_quantity := pu_newStock u\<rparr>"
  let ?h = "\<lambda>p::product. case find (\<lambda>u. pu_productId u = k) (rev (ups @ [u])) of
                        None \<Rightarrow> p
                      | Some u \<Rightarrow> p\<lparr>p_stock_quantity := pu_newStock u\<rparr>"
  have "find (\<lambda>p. p_id p = k) (apply_stock (ups @ [u]) ps)
          = map_option (set_stock u) (find (\<lambda>p. p_id p = k) (apply_stock ups ps))"
    by (simp add: apply_stock_snoc find_set_stock)
  also have "\<dots> = map_option (\<lambda>p. set_stock u (?g p)) (find (\<lambda>p. p_id p = k) ps)"
    by (simp add: snoc.IH option.map_comp comp_def)
  also have "\<dots> = map_option ?h (find (\<lambda>p. p_id p = k) ps)"
  proof (rule map_option_find_cong)
    fix p :: product assume "p_id p = k"
    then show "set_stock u (?g p) = ?h p"
      by (auto simp: set_stock_def split: option.splits)
  qed
  finally show ?case .
qed

lemma lines_ok_member:
  "lines_ok db items \<Longrightarrow> item \<in> set items \<Longrightarrow>
   \<exists>p. select_product db (productId item) = Some p \<and> quantity item \<le> p_stock_quantity p"
  by (auto simp: lines_ok_def list_all_iff split: option.splits)

lemma updates_of_map:
  "lines_ok db items \<Longrightarrow> updates_of db items = map (\<lambda>item. the (line_update db item)) items"
proof (induction items)
  case Nil
  show ?case by simp
next
  case (Cons item items)
  from Cons.prems obtain p where p: "select_product db (productId item) = Some p"
    and rest: "lines_ok db items"
    by (auto simp: lines_ok_def split: option.splits)
  from Cons.IH [OF rest] show ?case
    by (simp add: updates_of_Cons line_update_ok [OF p])
qed

lemma find_map: "find P (map f xs) = map_option f (find (\<lambda>x. P (f x)) xs)"
  by (induction xs) auto

lemma find_cong_set: "(\<And>x. x \<in> set xs \<Longrightarrow> P x = Q x) \<Longrightarrow> find P xs = find Q xs"
  by (induction xs) auto

lemma last_update_for:
  assumes "lines_ok db items"
  shows "find (\<lambda>u. pu_productId u = k) (rev (updates_of db items)) =
           map_option (\<lambda>item. the (line_update db item)) (last_line_for k items)"
proof -
  have "find (\<lambda>u. pu_productId u = k) (rev (updates_of db items))
          = map_option (\<lambda>item. the (line_update db item))
              (find (\<lambda>item. pu_productId (the (line_update db item)) = k) (rev items))"
    by (simp add: updates_of_map [OF assms] rev_map find_map)
  also have "find (\<lambda>item. pu_productId (the (line_update db item)) = k) (rev items)
          = find (\<lambda>item. productId item = k) (rev items)"
  proof (rule find_cong_set)
    fix item assume "item \<in> set (rev items)"
    then obtain p where "select_product db (productId item) = Some p"
      using lines_ok_member [OF assms, of item] by auto
    then show "(pu_productId (the (line_update db item)) = k) = (productId item = k)"
      by (simp add: line_update_ok)
  qed
  finally show ?thesis by (simp add: last_line_for_def)
qed

lemma find_SomeD: "find P xs = Some x \<Longrightarrow> x \<in> set xs \<and> P x"
  by (induction xs) (auto split: if_splits)

lemma last_line_for_Some:
  "last_line_for k items = Some l \<Longrightarrow> l \<in> set items \<and> productId l = k"
  unfolding last_line_for_def by (drule find_SomeD) simp

lemma stock_of_committed:
  assumes "lines_ok db items"
  shows "stock_of (committed now rnd userId items shippingAddress db) k =
           (case last_line_for k items of
              None \<Rightarrow> stock_of db k
            | Some l \<Rightarrow> map_option (\<lambda>s. s - quantity l) (stock_of db k))"
proof (cases "last_line_for k items")
  case None
  then show ?thesis
    by (simp add: stock_of_def select_product_def committed_def find_apply_stock
        last_update_for [OF assms] option.map_comp comp_def)
next
  case (Some l)
  then have l: "l \<in> set items" and k: "productId l = k"
    by (auto dest: last_line_for_Some)
  from lines_ok_member [OF assms l] k obtain p where p: "select_product db k = Some p"
    by auto
  with k have lu: "line_update db l =
     Some \<lparr> pu_productId = k, pu_productName = p_name p,
            pu_quantity = quantity l, pu_price = p_price p,
            pu_previousStock = p_stock_quantity p,
            pu_newStock = p_stock_quantity p - quantity l \<rparr>"
    using line_update_ok [of db l p] by simp
  from p have f: "find (\<lambda>p. p_id p = k) (products db) = Some p"
    by (simp add: select_product_def)
  show ?thesis
    by (simp add: stock_of_def select_product_def committed_def find_apply_stock
        last_update_for [OF assms] Some lu f)
qed

lemma order_items_committed:
  assumes "lines_ok db items"
  shows "map (oi_row oid) (updates_of db items) =
           map (\<lambda>item. \<lparr> oi_order_id = oid, oi_product_id = productId item,
                           oi_quantity = quantity item,
                           oi_price = the (map_option p_price (select_product db (productId item))) \<rparr>)
               items"
  unfolding updates_of_map [OF assms] map_map
proof (rule map_cong [OF refl])
  fix item assume "item \<in> set items"
  then obtain p where "select_product db (productId item) = Some p"
    using lines_ok_member [OF assms, of item] by auto
  then show "(oi_row oid \<circ> (\<lambda>item. the (line_update db item))) item =
           \<lparr> oi_order_id = oid, oi_product_id = productId item, oi_quantity = quantity item,
             oi_price = the (map_option p_price (select_product db (productId item))) \<rparr>"
    by (simp add: oi_row_def line_update_ok)
qed

lemma inventory_transactions_committed:
  assumes "lines_ok db items"
  shows "map (it_row oid uid) (updates_of db items) =
           map (\<lambda>item. \<lparr> it_product_id = productId item, it_type = ''sale'',
                           it_quantity = - quantity item,
                           it_previous_quantity = the (stock_of db (productId item)),
                           it_new_quantity = the (stock_of db (productId item)) - quantity item,
                           it_reason = ''Order #'' @ show_nat oid,
                           it_created_by = uid \<rparr>)
               items"
  unfolding updates_of_map [OF assms] map_map
proof (rule map_cong [OF refl])
  fix item assume "item \<in> set items"
  then obtain p where "select_product db (productId item) = Some p"
    using lines_ok_member [OF assms, of item] by auto
  then show "(it_row oid uid \<circ> (\<lambda>item. the (line_update db item))) item =
           \<lparr> it_product_id = productId item, it_type = ''sale'',
             it_quantity = - quantity item,
             it_previous_quantity = the (stock_of db (productId item)),
             it_new_quantity = the (stock_of db (productId item)) - quantity item,
             it_reason = ''Order #'' @ show_nat oid,
             it_created_by = uid \<rparr>"
    by (simp add: it_row_def line_update_ok stock_of_def)
qed

text \<open>
  C10. An order whose lines each name an existing product and ask for no more than its
  stock before the order is placed, when the user exists and the tracking number is
  new; this holds also when two lines name the same product. Every line gets one row
  in \<open>order_items\<close> and one \<open>sale\<close> row in the transaction log, whose previous quantity
  is the stock of the product before the order, for every line of that product alike.
  The stock of a product after the order is its stock before minus the quantity of the
  last line that names it: the write for an earlier line of the same product is
  overwritten.
\<close>

theorem duplicate_lines_keep_last_decrement:
  assumes "validate_createOrder items shippingAddress" and "can_commit now rnd userId items db"
  shows "let db' = fst (snd (placeOrder io now rnd userId items shippingAddress db)) in
           (\<exists>resp. fst (placeOrder io now rnd userId items shippingAddress db) = Inr resp)
         \<and> order_items db' =
             order_items db @
             map (\<lambda>item. \<lparr> oi_order_id = next_order_id db, oi_product_id = productId item,
                             oi_quantity = quantity item,
                             oi_price = the (map_option p_price (select_product db (productId item))) \<rparr>)
                 items
         \<and> inventory_transactions db' =
             inventory_transactions db @
             map (\<lambda>item. \<lparr> it_product_id = productId item, it_type = ''sale'',
                             it_quantity = - quantity item,
                             it_previous_quantity = the (stock_of db (productId item)),
                             it_new_quantity = the (stock_of db (productId item)) - quantity item,
                             it_reason = ''Order #'' @ show_nat (next_order_id db),
                             it_created_by = userId \<rparr>)
                 items
         \<and> stock_of db' pid =
             (case last_line_for pid items of
                None \<Rightarrow> stock_of db pid
              | Some l \<Rightarrow> map_option (\<lambda>s. s - quantity l) (stock_of db pid))"
proof -
  from assms(2) have ok: "lines_ok db items" by (simp add: can_commit_def)
  note p = placeOrder_committed [OF assms, of io]
  have oi: "order_items (committed now rnd userId items shippingAddress db) =
              order_items db @ map (oi_row (next_order_id db)) (updates_of db items)"
    by (simp add: committed_def)
  have it: "inventory_transactions (committed now rnd userId items shippingAddress db) =
              inventory_transactions db @ map (it_row (next_order_id db) userId) (updates_of db items)"
    by (simp add: committed_def)
  show ?thesis
    unfolding Let_def p fst_conv snd_conv oi it
      order_items_committed [OF ok] inventory_transactions_committed [OF ok]
      stock_of_committed [OF ok]
    by simp
qed


lemma lamp_order:
  assumes "lines_ok sample_db items" and "validate_createOrder items ''1 Main St''"
  shows "placeOrder True 1700000000000 4711 2 items ''1 Main St'' sample_db
     = (Inr (response_of 1700000000000 4711 2 items ''1 Main St'' sample_db),
        committed 1700000000000 4711 2 items ''1 Main St'' sample_db,
        events_of 1700000000000 4711 2 items ''1 Main St'' sample_db)"
proof -
  have c: "can_commit 1700000000000 4711 2 items sample_db"
    using assms(1) by (simp add: can_commit_def sample_eval)
  show ?thesis using placeOrder_committed [OF assms(2) c, of True] by simp
qed

theorem duplicate_lines_keep_last_decrement_witness:
  "stock_of sample_db 7 = Some 30
   \<and> \<not> isl (fst (placeOrder True 1700000000000 4711 2
         [\<lparr> productId = 7, quantity = 20 \<rparr>, \<lparr> productId = 7, quantity = 15 \<rparr>] ''1 Main St'' sample_db))
   \<and> map (\<lambda>r. (it_product_id r, it_previous_quantity r, it_new_quantity r))
        (inventory_transactions (fst (snd (placeOrder True 1700000000000 4711 2
         [\<lparr> productId = 7, quantity = 20 \<rparr>, \<lparr> productId = 7, quantity = 15 \<rparr>] ''1 Main St'' sample_db))))
      = [(7, 30, 10), (7, 30, 15)]
   \<and> stock_of (fst (snd (placeOrder True 1700000000000 4711 2
         [\<lparr> productId = 7, quantity = 20 \<rparr>, \<lparr> productId = 7, quantity = 15 \<rparr>] ''1 Main St'' sample_db))) 7
      = Some 15"
proof -
  let ?items = "[\<lparr> productId = 7, quantity = 20 \<rparr>, \<lparr> productId = 7, quantity = 15 \<rparr>]"
  have v: "validate_createOrder ?items ''1 Main St''"
    by (simp add: validate_createOrder_def)
  have c: "can_commit 1700000000000 4711 2 ?items sample_db"
    by (simp add: can_commit_def lines_ok_def sample_eval)
  have s: "stock_of sample_db 7 = Some 30"
    by (simp add: stock_of_def sample_eval)
  have l: "last_line_for 7 ?items = Some \<lparr> productId = 7, quantity = 15 \<rparr>"
    by (simp add: last_line_for_def)
  have e: "inventory_transactions sample_db = []"
    by (simp add: sample_db_def)
  note t = duplicate_lines_keep_last_decrement [OF v c, of True 7, unfolded Let_def]
  from t have a: "\<not> isl (fst (placeOrder True 1700000000000 4711 2 ?items ''1 Main St'' sample_db))"
    by auto
  from t have "inventory_transactions (fst (snd (placeOrder True 1700000000000 4711 2 ?items ''1 Main St'' sample_db)))
      = inventory_transactions sample_db @
             map (\<lambda>item. \<lparr> it_product_id = productId item, it_type = ''sale'',
                             it_quantity = - quantity item,
                             it_previous_quantity = the (stock_of sample_db (productId item)),
                             it_new_quantity = the (stock_of sample_db (productId item)) - quantity item,
                             it_reason = ''Order #'' @ show_nat (next_order_id sample_db),
                             it_created_by = 2 \<rparr>)
                 ?items"
    by blast
  then have b: "map (\<lambda>r. (it_product_id r, it_previous_quantity r, it_new_quantity r))
        (inventory_transactions (fst (snd (placeOrder True 1700000000000 4711 2 ?items ''1 Main St'' sample_db))))
      = [(7, 30, 10), (7, 30, 15)]"
    by (simp add: e s)
  from t have d: "stock_of (fst (snd (placeOrder True 1700000000000 4711 2 ?items ''1 Main St'' sample_db))) 7
      = Some 15"
    by (simp add: s l)
  from s a b d show ?thesis by (simp only: simp_thms)
qed

lemma find_snoc:
  "find P (xs @ [x]) = (case find P xs of None \<Rightarrow> (if P x then Some x else None) | Some y \<Rightarrow> Some y)"
  by (induction xs) auto

lemma filter_distinct_key:
  "distinct (map f xs) \<Longrightarrow>
   filter (\<lambda>x. f x = k) xs = (case find (\<lambda>x. f x = k) (rev xs) of None \<Rightarrow> [] | Some x \<Rightarrow> [x])"
proof (induction xs)
  case Nil
  show ?case by simp
next
  case (Cons x xs)
  show ?case
  proof (cases "f x = k")
    case True
    from Cons.prems have "f x \<notin> f ` set xs" by simp
    with True have no: "\<And>y. y \<in> set xs \<Longrightarrow> f y \<noteq> k" by blast
    then have "filter (\<lambda>x. f x = k) xs = []" by (simp add: filter_empty_conv)
    moreover from no have "find (\<lambda>x. f x = k) (rev xs) = None" by (simp add: find_None_iff)
    ultimately show ?thesis using True by (simp add: find_snoc)
  next
    case False
    with Cons show ?thesis by (simp add: find_snoc split: option.split)
  qed
qed

lemma distinct_lines_decrement_total:
  assumes "lines_ok db items" and "distinct (map productId items)"
  shows "stock_of (committed now rnd userId items shippingAddress db) k =
           map_option (\<lambda>s. s - sum_list (map quantity (filter (\<lambda>l. productId l = k) items)))
             (stock_of db k)"
  unfolding stock_of_committed [OF assms(1)] filter_distinct_key [OF assms(2)]
    last_line_for_def [symmetric]
  by (cases "last_line_for k items") (simp_all add: option.map_ident)

text \<open>
  C2. The stock after a placed order is the stock before minus the total ordered for
  the product when no two lines name the same product (lemma
  \<open>distinct_lines_decrement_total\<close>). It is not so in general: John Doe orders the desk
  lamp, stock 100, in two lines of 2 and 3; the order is placed, 5 lamps are sold and
  the stock is 97.
\<close>

theorem duplicate_lines_lose_a_decrement:
  "stock_of sample_db 5 = Some 100
   \<and> sum_list (map quantity (filter (\<lambda>l. productId l = 5)
        [\<lparr> productId = 5, quantity = 2 \<rparr>, \<lparr> productId = 5, quantity = 3 \<rparr>])) = 5
   \<and> \<not> isl (fst (placeOrder True 1700000000000 4711 2
         [\<lparr> productId = 5, quantity = 2 \<rparr>, \<lparr> productId = 5, quantity = 3 \<rparr>] ''1 Main St'' sample_db))
   \<and> stock_of (fst (snd (placeOrder True 1700000000000 4711 2
         [\<lparr> productId = 5, quantity = 2 \<rparr>, \<lparr> productId = 5, quantity = 3 \<rparr>] ''1 Main St'' sample_db))) 5
      = Some 97"
proof -
  let ?items = "[\<lparr> productId = 5, quantity = 2 \<rparr>, \<lparr> productId = 5, quantity = 3 \<rparr>]"
  have v: "validate_createOrder ?items ''1 Main St''"
    by (simp add: validate_createOrder_def)
  have ok: "lines_ok sample_db ?items"
    by (simp add: lines_ok_def sample_eval)
  have s: "stock_of sample_db 5 = Some 100"
    by (simp add: stock_of_def sample_eval)
  have l: "last_line_for 5 ?items = Some \<lparr> productId = 5, quantity = 3 \<rparr>"
    by (simp add: last_line_for_def)
  show ?thesis
    by (simp add: lamp_order [OF ok v] stock_of_committed [OF ok] s l)
qed

section \<open>The stock stays non-negative\<close>





lemma put_product_stock_rejects_negative:
  "put_product_stock io pid (Number (- 5)) db = ((400, None), db, [])"
  by (simp add: put_product_stock_def)





section \<open>A rollback that undoes writes\<close>

text \<open>
  When the tracking number of the new order is in use in \<open>shipments\<close> but not in
  \<open>orders\<close>, the transaction fails at its last insert, after the order row, the order
  items, the stock and the log rows were written; \<open>db.transaction\<close> undoes them and the
  request leaves the database as it was.
\<close>

lemma shipment_conflict_leaves_partial_writes:
  assumes "lines_ok db items" and "select_user db userId \<noteq> None"
    and "trackingNumber_of now rnd \<notin> set (map o_tracking_number (orders db))"
    and "trackingNumber_of now rnd \<in> set (map sh_tracking_number (shipments db))"
  shows "order_transaction now rnd userId items shippingAddress db =
           (Inl (SqliteConstraint ''UNIQUE constraint failed: shipments.tracking_number''),
            updates_written (next_order_id db) userId (updates_of db items)
              (db\<lparr>orders := orders db @ [new_order_row now rnd userId items shippingAddress db],
                  orders_seq := next_order_id db\<rparr>))"
proof -
  let ?ups = "updates_of db items"
  let ?oid = "next_order_id db"
  let ?row = "new_order_row now rnd userId items shippingAddress db"
  let ?db1 = "db\<lparr>orders := orders db @ [?row], orders_seq := ?oid\<rparr>"
  let ?db2 = "updates_written ?oid userId ?ups ?db1"
  have i1: "insertOrder ?row db = Inr ?db1"
    using assms(2,3) by (simp add: insertOrder_def new_order_row_def)
  have so: "select_order ?db1 ?oid = Some ?row"
    unfolding select_order_def using select_order_new [of ?row db]
    by (simp add: new_order_row_def)
  have su: "select_user ?db1 userId \<noteq> None"
    using assms(2) by (simp add: select_user_def)
  have sp: "list_all (\<lambda>u. select_product ?db1 (pu_productId u) \<noteq> None) ?ups"
    using updates_of_product [of db items] by (simp add: select_product_def)
  have w: "write_updates ?oid userId ?ups ?db1 = (None, ?db2)"
    using so su sp by (intro write_updates_ok) simp_all
  have i3: "insertShipment (new_shipment now rnd db) ?db2 =
              Inl (SqliteConstraint ''UNIQUE constraint failed: shipments.tracking_number'')"
    using assms(4) by (simp add: insertShipment_def new_shipment_def updates_written_def)
  show ?thesis
    unfolding order_transaction_checked [OF assms(1)] by (simp add: i1 w i3)
qed

lemma rollback_undoes_partial_writes:
  "stock_of relabelled_db 5 = Some 100
   \<and> stock_of (snd (order_transaction 1700000000000 4711 2 [\<lparr> productId = 5, quantity = 2 \<rparr>]
                       ''1 Main St'' relabelled_db)) 5 = Some 98
   \<and> placeOrder True 1700000000000 4711 2 [\<lparr> productId = 5, quantity = 2 \<rparr>] ''1 Main St'' relabelled_db
     = (Inl (SqliteConstraint ''UNIQUE constraint failed: shipments.tracking_number''), relabelled_db, [])"
proof -
  let ?items = "[\<lparr> productId = 5, quantity = 2 \<rparr>]"
  have ok: "lines_ok relabelled_db ?items"
    by (simp add: lines_ok_def relabelled_db_def returning_db_def sample_eval)
  have t: "trackingNumber_of 1700000000000 4711 = ''TRK17000000000004711''"
    by (simp add: trackingNumber_of_def show_nat_eval)
  have usr: "select_user relabelled_db 2 \<noteq> None"
    by (simp add: relabelled_db_def returning_db_def sample_eval)
  have t1: "trackingNumber_of 1700000000000 4711 \<notin> set (map o_tracking_number (orders relabelled_db))"
    unfolding t by (simp add: relabelled_db_def returning_db_def)
  have t2: "trackingNumber_of 1700000000000 4711 \<in> set (map sh_tracking_number (shipments relabelled_db))"
    unfolding t by (simp add: relabelled_db_def)
  note b = shipment_conflict_leaves_partial_writes [OF ok usr t1 t2, of "''1 Main St''"]
  have u: "updates_of relabelled_db ?items =
     [\<lparr> pu_productId = 5, pu_productName = ''Architect Desk Lamp'', pu_quantity = 2,
        pu_price = 7999 / 100, pu_previousStock = 100, pu_newStock = 98 \<rparr>]"
    by (simp add: updates_of_def line_update_def relabelled_db_def returning_db_def sample_eval)
  have s: "stock_of relabelled_db 5 = Some 100"
    by (simp add: stock_of_def relabelled_db_def returning_db_def sample_eval)
  have s2: "stock_of (snd (order_transaction 1700000000000 4711 2 ?items ''1 Main St'' relabelled_db)) 5
              = Some 98"
    unfolding b u snd_conv
    by (simp add: stock_of_def select_product_def updates_written_def apply_stock_def set_stock_def
        relabelled_db_def returning_db_def sample_db_def sample_products_def)
  have v: "validate_createOrder ?items ''1 Main St''"
    by (simp add: validate_createOrder_def)
  have p: "placeOrder True 1700000000000 4711 2 ?items ''1 Main St'' relabelled_db
     = (Inl (SqliteConstraint ''UNIQUE constraint failed: shipments.tracking_number''), relabelled_db, [])"
    using v by (simp add: placeOrder_def db_transaction_def b)
  from s s2 p show ?thesis by (simp only: simp_thms)
qed

end
